(* ===== verification/Prelude.thy ===== *)
theory Prelude
  imports Main
begin

text \<open>
  Shared vocabulary of the development of \<^verbatim>\<open>src/dashboard.py\<close>: the Python
  exceptions the script can raise (as values of \<open>py_error\<close>), the result type
  \<open>'a py_result\<close>, the list comprehension with exceptions \<open>py_map\<close>, the
  \<^verbatim>\<open>str\<close> methods the script and the libraries it calls use
  (\<^verbatim>\<open>strip\<close>, \<^verbatim>\<open>startswith\<close>, splitting and joining lines), decimal digits,
  and the UTF-8 byte sequences of the non-ASCII characters of the source's
  literals. Text is a \<open>string\<close>, that is a list of bytes: the UTF-8 encoding
  the page is served in.
\<close>

section \<open>Collections\<close>

named_theorems source_literals "definitions of literal data of the source"
named_theorems py_simps "evaluation rules of the Python primitives"

section \<open>Exceptions and results\<close>

text \<open>
  The exceptions raised on the paths of the script, with their message argument as
  CPython and Streamlit write it.
\<close>

datatype py_error =
    OverflowError string
  | ValueError string
  | KeyError string
  | IndexError string
  | StreamlitAPIException string

type_synonym 'a py_result = "py_error + 'a"

text \<open>
  A list comprehension \<^verbatim>\<open>[f(x) for x in xs]\<close> whose element expression may
  raise: the first exception, in list order, aborts the whole comprehension.
\<close>

fun py_map :: "('a \<Rightarrow> 'b py_result) \<Rightarrow> 'a list \<Rightarrow> 'b list py_result" where
  "py_map f [] = Inr []"
| "py_map f (x # xs) =
     (case f x of
        Inl e \<Rightarrow> Inl e
      | Inr y \<Rightarrow> (case py_map f xs of Inl e \<Rightarrow> Inl e | Inr ys \<Rightarrow> Inr (y # ys)))"

lemma py_map_Inr_iff:
  "py_map f xs = Inr ys \<longleftrightarrow> list_all2 (\<lambda>x y. f x = Inr y) xs ys"
proof (induction xs arbitrary: ys)
  case Nil
  then show ?case by auto
next
  case (Cons x xs)
  show ?case
    by (cases ys) (auto simp: Cons.IH [symmetric] split: sum.splits)
qed

lemma py_map_all_Inr [py_simps]:
  "list_all (\<lambda>x. f x = Inr (g x)) xs \<Longrightarrow> py_map f xs = Inr (map g xs)"
  by (induction xs) auto

lemma py_map_length:
  "py_map f xs = Inr ys \<Longrightarrow> length ys = length xs"
  by (auto simp: py_map_Inr_iff dest: list_all2_lengthD)

lemma py_map_Inr_map:
  assumes "\<And>x y. f x = Inr y \<Longrightarrow> y = g x" and "py_map f xs = Inr ys"
  shows "ys = map g xs"
proof -
  from assms(2) have "list_all2 (\<lambda>x y. f x = Inr y) xs ys" by (simp add: py_map_Inr_iff)
  then show ?thesis by (induction rule: list_all2_induct) (auto dest: assms(1))
qed

lemma py_map_first_error:
  "f x = Inl e \<Longrightarrow> list_all (\<lambda>y. \<exists>z. f y = Inr z) xs \<Longrightarrow> py_map f (xs @ x # ys) = Inl e"
  by (induction xs) auto

section \<open>Characters and strings\<close>

text \<open>
  Python's \<^verbatim>\<open>str.isspace\<close> on the ASCII range: tab, line feed, vertical tab,
  form feed, carriage return, the separators 0x1C to 0x1F, and space.
\<close>

fun py_space :: "char \<Rightarrow> bool" where
  "py_space (Char b0 b1 b2 b3 b4 b5 b6 b7) \<longleftrightarrow>
     \<not> b7 \<and> \<not> b6 \<and>
     ((\<not> b5 \<and> \<not> b4 \<and> b3 \<and> (b0 \<or> b1 \<or> b2) \<and> \<not> (b2 \<and> b1))
      \<or> (\<not> b5 \<and> b4 \<and> b3 \<and> b2)
      \<or> (b5 \<and> \<not> b4 \<and> \<not> b3 \<and> \<not> b2 \<and> \<not> b1 \<and> \<not> b0))"

text \<open>
  The test above is on the bits of the character, so that it evaluates quickly on
  literals; the next two lemmas state it on the characters and on their codes.
\<close>

lemma py_space_chars:
  "py_space c \<longleftrightarrow> c = CHR '' '' \<or> c = CHR 0x0A \<or> c = CHR 0x09 \<or> c = CHR 0x0D \<or> c = CHR 0x0B
                 \<or> c = CHR 0x0C \<or> c = CHR 0x1C \<or> c = CHR 0x1D \<or> c = CHR 0x1E \<or> c = CHR 0x1F"
proof -
  obtain b0 b1 b2 b3 b4 b5 b6 b7 where c: "c = Char b0 b1 b2 b3 b4 b5 b6 b7" by (cases c)
  show ?thesis
    unfolding c
    by (cases b0; cases b1; cases b2; cases b3; cases b4; cases b5; cases b6; cases b7) simp_all
qed

lemma of_char_in_iff:
  assumes "S \<subseteq> {0..<256}"
  shows "(of_char c :: nat) \<in> S \<longleftrightarrow> c \<in> char_of ` S"
proof
  assume "of_char c \<in> S"
  then show "c \<in> char_of ` S" by (metis char_of_char image_eqI)
next
  assume "c \<in> char_of ` S"
  then obtain n where "n \<in> S" and "c = char_of n" by blast
  with assms show "of_char c \<in> S" by (auto simp: of_char_of)
qed

lemma py_space_code_points:
  "py_space c \<longleftrightarrow> of_char c \<in> {9, 10, 11, 12, 13, 28, 29, 30, 31, 32 :: nat}"
proof -
  have "char_of ` {9, 10, 11, 12, 13, 28, 29, 30, 31, 32 :: nat} =
        {CHR 0x09, CHR 0x0A, CHR 0x0B, CHR 0x0C, CHR 0x0D, CHR 0x1C, CHR 0x1D, CHR 0x1E, CHR 0x1F,
         CHR 0x20}"
    by (simp add: char_of_def bit_0)
  then show ?thesis
    by (subst of_char_in_iff) (auto simp: py_space_chars)
qed

definition lstrip :: "string \<Rightarrow> string" where
  "lstrip s = dropWhile py_space s"

definition rstrip :: "string \<Rightarrow> string" where
  "rstrip s = rev (dropWhile py_space (rev s))"

text \<open>
  ASCII lower case: the codes 65 to 90 move up by 32. Computed on the bits of the
  character (bit 5 set for the codes of upper-case letters), so that it evaluates
  on literals; \<open>lower_code_points\<close> states it on the codes.
\<close>

fun lower :: "char \<Rightarrow> char" where
  "lower (Char b0 b1 b2 b3 b4 b5 b6 b7) =
     (if b6 \<and> \<not> b5 \<and> \<not> b7 \<and> (b0 \<or> b1 \<or> b2 \<or> b3 \<or> b4) \<and> \<not> (b4 \<and> b3 \<and> (b2 \<or> b1 \<and> b0))
      then Char b0 b1 b2 b3 b4 True b6 b7 else Char b0 b1 b2 b3 b4 b5 b6 b7)"

lemma lower_code_points:
  "lower c = (let n = of_char c :: nat in if 65 \<le> n \<and> n \<le> 90 then char_of (n + 32) else c)"
proof -
  obtain b0 b1 b2 b3 b4 b5 b6 b7 where c: "c = Char b0 b1 b2 b3 b4 b5 b6 b7" by (cases c)
  show ?thesis
    unfolding c
    by (cases b0; cases b1; cases b2; cases b3; cases b4; cases b5; cases b6; cases b7)
       (simp_all add: Let_def char_of_def bit_0)
qed

lemma lower_eq_lt: "lower x = CHR ''<'' \<longleftrightarrow> x = CHR ''<''"
proof -
  obtain b0 b1 b2 b3 b4 b5 b6 b7 where c: "x = Char b0 b1 b2 b3 b4 b5 b6 b7" by (cases x)
  show ?thesis
    unfolding c
    by (cases b0; cases b1; cases b2; cases b3; cases b4; cases b5; cases b6; cases b7) simp_all
qed

text \<open>\<^verbatim>\<open>str.strip()\<close>.\<close>

definition py_strip :: "string \<Rightarrow> string" where
  "py_strip s = rstrip (lstrip s)"

text \<open>\<^verbatim>\<open>str.startswith\<close>.\<close>

definition startswith :: "string \<Rightarrow> string \<Rightarrow> bool" where
  "startswith s p \<longleftrightarrow> take (length p) s = p"

lemma startswith_append [simp]: "startswith (p @ s) p"
  by (simp add: startswith_def)

lemma startswith_Nil [simp]: "startswith s []"
  by (simp add: startswith_def)

lemma startswith_Cons_Cons [simp]:
  "startswith (c # s) (d # p) \<longleftrightarrow> c = d \<and> startswith s p"
  by (auto simp: startswith_def)

lemma startswith_Nil_Cons [simp]: "\<not> startswith [] (d # p)"
  by (simp add: startswith_def)

lemma length_dropWhile_less_Suc: "length (dropWhile P s) - Suc 0 < Suc (length s)"
  using length_dropWhile_le [of P s] by linarith

text \<open>
  Lines of a text: \<^verbatim>\<open>"\n".join(ls)\<close> and its inverse \<^verbatim>\<open>s.split("\n")\<close>
  (which, unlike \<^verbatim>\<open>splitlines\<close>, keeps a last empty line).
\<close>

fun unlines :: "string list \<Rightarrow> string" where
  "unlines [] = []"
| "unlines [l] = l"
| "unlines (l # ls) = l @ CHR ''\<newline>'' # unlines ls"

fun split_nl :: "string \<Rightarrow> string list" where
  "split_nl [] = [[]]"
| "split_nl (c # s) =
     (if c = CHR ''\<newline>'' then [] # split_nl s
      else (case split_nl s of [] \<Rightarrow> [[c]] | l # ls \<Rightarrow> (c # l) # ls))"

text \<open>
  A multi-line literal is \<open>unlines\<close> of its lines. Its equations are not simp
  rules: facts about a whole text are computed line by line through the lemmas
  below, so that a literal is never expanded into one long character list.
\<close>

declare unlines.simps [simp del]

lemmas unlines_eqs = unlines.simps

lemma unlines_Cons: "ls \<noteq> [] \<Longrightarrow> unlines (l # ls) = l @ CHR ''\<newline>'' # unlines ls"
  by (cases ls) (simp_all add: unlines.simps)

lemma unlines_single [simp]: "unlines [l] = l"
  by (simp add: unlines.simps)

lemma unlines_Nil [simp]: "unlines [] = []"
  by (simp add: unlines.simps)

definition nl_free :: "string \<Rightarrow> bool" where
  "nl_free l \<longleftrightarrow> CHR ''\<newline>'' \<notin> set l"

lemma nl_free_Nil [simp]: "nl_free []"
  by (simp add: nl_free_def)

lemma nl_free_Cons [simp]: "nl_free (c # s) \<longleftrightarrow> c \<noteq> CHR ''\<newline>'' \<and> nl_free s"
  by (auto simp: nl_free_def)

lemma nl_free_append [simp]: "nl_free (xs @ ys) \<longleftrightarrow> nl_free xs \<and> nl_free ys"
  by (auto simp: nl_free_def)

lemma split_nl_not_Nil [simp]: "split_nl s \<noteq> []"
  by (induction s) (auto split: list.splits)

lemma split_nl_append_line:
  "CHR ''\<newline>'' \<notin> set l \<Longrightarrow> split_nl (l @ s) = (case split_nl s of l' # ls \<Rightarrow> (l @ l') # ls)"
  by (induction l) (auto split: list.splits)

lemma split_nl_unlines:
  "ls \<noteq> [] \<Longrightarrow> list_all nl_free ls \<Longrightarrow> split_nl (unlines ls) = ls"
proof (induction ls rule: unlines.induct)
  case 1
  then show ?case by simp
next
  case (2 l)
  then show ?case using split_nl_append_line [of l "[]"] by (simp add: nl_free_def)
next
  case (3 l v vs)
  then have "split_nl (unlines (v # vs)) = v # vs" by simp
  with "3.prems" show ?case by (simp add: split_nl_append_line unlines_Cons nl_free_def)
qed

text \<open>
  Stripping a multi-line text: leading (trailing) lines of white space go, and the
  first (last) remaining line is stripped on its left (right).
\<close>

fun strip_edge :: "(string \<Rightarrow> string) \<Rightarrow> string list \<Rightarrow> string list" where
  "strip_edge f [] = []"
| "strip_edge f (l # ls) = (if list_all py_space l \<and> ls \<noteq> [] then strip_edge f ls else f l # ls)"

definition strip_lines :: "string list \<Rightarrow> string list" where
  "strip_lines ls = rev (strip_edge rstrip (rev (strip_edge lstrip ls)))"

lemma py_space_newline: "py_space CHR ''\<newline>''"
  by simp

lemma lstrip_unlines: "lstrip (unlines ls) = unlines (strip_edge lstrip ls)"
proof (induction ls rule: unlines.induct)
  case (3 l v vs)
  show ?case
  proof (cases "list_all py_space l")
    case True
    then have "lstrip (l @ CHR ''\<newline>'' # unlines (v # vs)) = lstrip (unlines (v # vs))"
      by (induction l) (simp_all add: lstrip_def)
    with True "3.IH" show ?thesis by (simp add: unlines_Cons)
  next
    case False
    then obtain x where "x \<in> set l" "\<not> py_space x" by (auto simp: list_all_iff)
    then have "lstrip (l @ CHR ''\<newline>'' # unlines (v # vs)) = lstrip l @ CHR ''\<newline>'' # unlines (v # vs)"
      by (simp add: lstrip_def dropWhile_append1)
    with False show ?thesis by (simp add: unlines_Cons)
  qed
qed (simp_all add: lstrip_def)

lemma unlines_snoc: "ls \<noteq> [] \<Longrightarrow> unlines (ls @ [l]) = unlines ls @ CHR ''\<newline>'' # l"
proof (induction ls rule: unlines.induct)
  case (2 v)
  then show ?case by (simp add: unlines_Cons)
next
  case (3 u v vs)
  then show ?case by (simp add: unlines_Cons)
qed simp

lemma rev_unlines: "rev (unlines ls) = unlines (map rev (rev ls))"
proof (induction ls rule: unlines.induct)
  case (3 l v vs)
  then show ?case
    using unlines_snoc [of "map rev (rev vs) @ [rev v]" "rev l"] by (simp add: unlines_Cons)
qed simp_all

lemma strip_edge_rev:
  "strip_edge lstrip (map rev ls) = map rev (strip_edge rstrip ls)"
  by (induction ls) (simp_all add: lstrip_def rstrip_def list_all_rev)

lemma rstrip_unlines: "rstrip (unlines ls) = unlines (rev (strip_edge rstrip (rev ls)))"
proof -
  have "rstrip (unlines ls) = rev (lstrip (rev (unlines ls)))"
    by (simp add: rstrip_def lstrip_def)
  also have "\<dots> = rev (unlines (strip_edge lstrip (map rev (rev ls))))"
    by (simp add: rev_unlines lstrip_unlines)
  also have "\<dots> = unlines (rev (strip_edge rstrip (rev ls)))"
    by (simp add: strip_edge_rev rev_unlines rev_map)
  finally show ?thesis .
qed

lemma py_strip_unlines: "py_strip (unlines ls) = unlines (strip_lines ls)"
  by (simp add: py_strip_def lstrip_unlines rstrip_unlines strip_lines_def)

lemma strip_edge_nl_free:
  "list_all nl_free ls \<Longrightarrow> (\<And>l. set (f l) \<subseteq> set l) \<Longrightarrow> list_all nl_free (strip_edge f ls)"
  by (induction ls) (auto simp: nl_free_def)

lemma strip_edge_not_Nil: "ls \<noteq> [] \<Longrightarrow> strip_edge f ls \<noteq> []"
  by (induction ls) auto

lemma set_lstrip: "set (lstrip l) \<subseteq> set l"
  by (auto simp: lstrip_def dest: set_dropWhileD)

lemma set_rstrip: "set (rstrip l) \<subseteq> set l"
  by (auto simp: rstrip_def dest: set_dropWhileD)

lemma strip_lines_nl_free: "list_all nl_free ls \<Longrightarrow> list_all nl_free (strip_lines ls)"
  unfolding strip_lines_def
  by (simp add: strip_edge_nl_free set_lstrip set_rstrip list_all_rev)

lemma strip_lines_not_Nil: "ls \<noteq> [] \<Longrightarrow> strip_lines ls \<noteq> []"
  by (simp add: strip_lines_def strip_edge_not_Nil)

text \<open>A text framed by an empty first and last line, as a triple-quoted literal is.\<close>

lemma strip_lines_frame:
  "\<not> list_all py_space a \<Longrightarrow> \<not> list_all py_space b \<Longrightarrow>
   strip_lines ([] # a # ms @ [b, []]) = lstrip a # ms @ [rstrip b]"
  by (simp add: strip_lines_def)

section \<open>Decimal digits\<close>

definition decimal_digits :: string where
  "decimal_digits = ''0123456789''"

definition digit_char :: "nat \<Rightarrow> char" where
  "digit_char d = decimal_digits ! d"

lemma digit_char_mem: "d < 10 \<Longrightarrow> digit_char d \<in> set decimal_digits"
  unfolding digit_char_def by (rule nth_mem) (simp add: decimal_digits_def)

definition char_digit :: "char \<Rightarrow> nat option" where
  "char_digit c =
     (let n = of_char c :: nat in if 48 \<le> n \<and> n < 58 then Some (n - 48) else None)"

lemma char_digit_digit_char [simp]: "d < 10 \<Longrightarrow> char_digit (digit_char d) = Some d"
proof -
  assume "d < 10"
  then have "d \<in> {0, 1, 2, 3, 4, 5, 6, 7, 8, 9}" by auto
  then show ?thesis by (auto simp: digit_char_def decimal_digits_def char_digit_def)
qed

text \<open>\<^verbatim>\<open>%02d\<close> of a number below 100: two digits, zero-padded.\<close>

definition pad2 :: "nat \<Rightarrow> string" where
  "pad2 n = [digit_char (n div 10), digit_char (n mod 10)]"

definition read2 :: "string \<Rightarrow> nat option" where
  "read2 s = (case s of
       [a, b] \<Rightarrow> (case (char_digit a, char_digit b) of
                    (Some x, Some y) \<Rightarrow> Some (10 * x + y) | _ \<Rightarrow> None)
     | _ \<Rightarrow> None)"

lemma read2_pad2 [simp]: "n < 100 \<Longrightarrow> read2 (pad2 n) = Some n"
  by (simp add: read2_def pad2_def less_mult_imp_div_less)

lemma length_pad2 [simp]: "length (pad2 n) = 2"
  by (simp add: pad2_def)

lemma set_pad2:
  assumes "n < 100"
  shows "set (pad2 n) \<subseteq> set decimal_digits"
proof -
  from assms have "n div 10 < 10" by (simp add: less_mult_imp_div_less)
  then show ?thesis by (simp add: pad2_def digit_char_mem)
qed

section \<open>Non-ASCII characters of the literals, as UTF-8 bytes\<close>

abbreviation u_emdash :: string where "u_emdash \<equiv> [CHR 0xE2, CHR 0x80, CHR 0x94]"
abbreviation u_droplet :: string where "u_droplet \<equiv> [CHR 0xF0, CHR 0x9F, CHR 0x92, CHR 0xA7]"
abbreviation u_bullet :: string where "u_bullet \<equiv> [CHR 0xE2, CHR 0x80, CHR 0xA2]"
abbreviation u_middot :: string where "u_middot \<equiv> [CHR 0xC2, CHR 0xB7]"
abbreviation u_rarrow :: string where "u_rarrow \<equiv> [CHR 0xE2, CHR 0x86, CHR 0x92]"
abbreviation u_degree :: string where "u_degree \<equiv> [CHR 0xC2, CHR 0xB0]"

end
