(* ===== verification/Markdown.thy ===== *)
theory Markdown
  imports Prelude
begin

text \<open>
  What \<^verbatim>\<open>st.markdown(body, unsafe_allow_html=True)\<close> does with its body,
  the library behaviour every markup call of \<^verbatim>\<open>src/dashboard.py\<close> relies on.
  Streamlit first normalises the body with \<^verbatim>\<open>clean_text\<close>, that is
  \<^verbatim>\<open>textwrap.dedent(body).strip()\<close>, and the page then parses it as
  CommonMark, passing raw HTML through. This theory models:
  \<^item> \<^verbatim>\<open>textwrap.dedent\<close>: whitespace-only lines are emptied, and the longest
    common leading whitespace of the other lines is removed;
  \<^item> \<^verbatim>\<open>str.strip\<close> on the result;
  \<^item> the CommonMark block structure the bodies reach: blank lines, indented
    code blocks (four or more spaces, not inside a paragraph), HTML blocks of
    start conditions 1 (\<^verbatim>\<open><style\<close>, \<^verbatim>\<open><script\<close>, \<^verbatim>\<open><pre\<close>,
    \<^verbatim>\<open><textarea\<close>, ended by the matching closing tag), 2 (comments) and 6
    (block-level tags such as \<^verbatim>\<open><div\<close>, \<^verbatim>\<open><h1\<close>, \<^verbatim>\<open><p\<close>, ended by a
    blank line), and paragraphs for every other line. Headings, lists, block
    quotes, fences and start condition 7 are not modelled: no line of the
    script's bodies that starts a block is of these kinds.
\<close>

section \<open>\<^verbatim>\<open>textwrap.dedent\<close> and Streamlit's \<^verbatim>\<open>clean_text\<close>\<close>

definition tw_ws :: "char \<Rightarrow> bool" where
  "tw_ws c \<longleftrightarrow> c = CHR '' '' \<or> c = CHR 0x09"

definition tw_blank :: "string \<Rightarrow> bool" where
  "tw_blank l \<longleftrightarrow> list_all tw_ws l"

definition tw_indent :: "string \<Rightarrow> string" where
  "tw_indent l = takeWhile tw_ws l"

fun common_prefix :: "string \<Rightarrow> string \<Rightarrow> string" where
  "common_prefix (a # as) (b # bs) = (if a = b then a # common_prefix as bs else [])"
| "common_prefix _ _ = []"

text \<open>
  The margin: the first indentation, narrowed by each further one. The three
  branches of \<^verbatim>\<open>dedent\<close>'s loop (keep, shorten to a prefix, cut at the
  first difference) all compute the common prefix.
\<close>

definition dedent_margin :: "string list \<Rightarrow> string" where
  "dedent_margin ls =
     (case filter (\<lambda>l. \<not> tw_blank l) ls of
        [] \<Rightarrow> []
      | l # rest \<Rightarrow> fold (\<lambda>l m. common_prefix m (tw_indent l)) rest (tw_indent l))"

definition dedent_lines :: "string list \<Rightarrow> string list" where
  "dedent_lines ls =
     (let m = dedent_margin ls in map (\<lambda>l. if tw_blank l then [] else drop (length m) l) ls)"

definition dedent :: "string \<Rightarrow> string" where
  "dedent s = unlines (dedent_lines (split_nl s))"

definition clean_text :: "string \<Rightarrow> string" where
  "clean_text s = py_strip (dedent s)"

text \<open>The same, computed on the lines of a text.\<close>

definition clean_lines :: "string list \<Rightarrow> string list" where
  "clean_lines ls = strip_lines (dedent_lines ls)"

section \<open>CommonMark blocks\<close>

datatype md_block = HtmlBlock "string list" | CodeBlock "string list" | Para "string list"

definition md_blank :: "string \<Rightarrow> bool" where
  "md_blank l \<longleftrightarrow> list_all tw_ws l"

definition md_indent :: "string \<Rightarrow> nat" where
  "md_indent l = length (takeWhile (\<lambda>c. c = CHR '' '') l)"

text \<open>Does \<open>s\<close> start with the tag name \<open>t\<close> (case-insensitively), followed by one of \<open>ends\<close>?\<close>

definition tag_then :: "string \<Rightarrow> string \<Rightarrow> string list \<Rightarrow> bool" where
  "tag_then s t ends \<longleftrightarrow>
     length t \<le> length s \<and> map lower (take (length t) s) = t
     \<and> (let r = drop (length t) s in r = [] \<or> list_ex (startswith r) ends)"

definition html1_tags :: "string list" where
  "html1_tags = [''pre'', ''script'', ''style'', ''textarea'']"

definition html6_tags :: "string list" where
  "html6_tags =
     [''address'', ''article'', ''aside'', ''base'', ''basefont'', ''blockquote'', ''body'',
      ''caption'', ''center'', ''col'', ''colgroup'', ''dd'', ''details'', ''dialog'', ''dir'',
      ''div'', ''dl'', ''dt'', ''fieldset'', ''figcaption'', ''figure'', ''footer'', ''form'',
      ''frame'', ''frameset'', ''h1'', ''h2'', ''h3'', ''h4'', ''h5'', ''h6'', ''head'',
      ''header'', ''hr'', ''html'', ''iframe'', ''legend'', ''li'', ''link'', ''main'', ''menu'',
      ''menuitem'', ''nav'', ''noframes'', ''ol'', ''optgroup'', ''option'', ''p'', ''param'',
      ''search'', ''section'', ''summary'', ''table'', ''tbody'', ''td'', ''tfoot'', ''th'',
      ''thead'', ''title'', ''tr'', ''track'', ''ul'']"

text \<open>The start condition of an HTML block that a line opens, if any (indentation at most 3).\<close>

definition html_start :: "string \<Rightarrow> nat option" where
  "html_start l =
     (if 3 < md_indent l then None
      else let r = drop (md_indent l) l in
        if list_ex (\<lambda>t. tag_then (drop 1 r) t [[CHR '' ''], [CHR 0x09], ''>''])
                   html1_tags \<and> take 1 r = ''<'' then Some 1
        else if startswith r ''<!--'' then Some 2
        else if take 1 r = ''<''
                \<and> list_ex (\<lambda>t. tag_then (if take 2 r = ''</'' then drop 2 r else drop 1 r) t
                                        [[CHR '' ''], [CHR 0x09], ''>'', ''/>''])
                          html6_tags then Some 6
        else None)"

text \<open>Does \<open>p\<close> (lower case) occur in \<open>s\<close>, ignoring the case of \<open>s\<close>?\<close>

fun contains_ci :: "string \<Rightarrow> string \<Rightarrow> bool" where
  "contains_ci [] p = (p = [])"
| "contains_ci (c # s) p =
     ((length p \<le> length (c # s) \<and> map lower (take (length p) (c # s)) = p)
      \<or> contains_ci s p)"

definition html_end :: "nat \<Rightarrow> string \<Rightarrow> bool" where
  "html_end k l =
     (if k = 1 then list_ex (\<lambda>t. contains_ci l (''</'' @ t @ ''>'')) html1_tags
      else if k = 2 then contains_ci l ''-->''
      else False)"

text \<open>
  The block under construction. A code block keeps the blank lines seen since
  its last non-blank line apart: they belong to it only if more code follows.
\<close>

datatype md_open = NoBlock | OpenHtml nat "string list" | OpenCode "string list" "string list"
  | OpenPara "string list"

fun md_close :: "md_open \<Rightarrow> md_block list" where
  "md_close NoBlock = []"
| "md_close (OpenHtml k acc) = [HtmlBlock acc]"
| "md_close (OpenCode acc pend) = [CodeBlock acc]"
| "md_close (OpenPara acc) = [Para acc]"

text \<open>
  A line that ends a code block or interrupts a paragraph is read again in state
  \<open>NoBlock\<close>: the list does not shrink on that call, but the state does.
\<close>

definition md_rank :: "md_open \<Rightarrow> nat" where
  "md_rank st = (case st of NoBlock \<Rightarrow> 0 | _ \<Rightarrow> 1)"

function md_go :: "md_open \<Rightarrow> string list \<Rightarrow> md_block list" where
  "md_go st [] = md_close st"
| "md_go NoBlock (l # ls) =
     (if md_blank l then md_go NoBlock ls
      else if 4 \<le> md_indent l then md_go (OpenCode [drop 4 l] []) ls
      else if html_start l = None then md_go (OpenPara [l]) ls
      else if html_end (the (html_start l)) l then HtmlBlock [l] # md_go NoBlock ls
      else md_go (OpenHtml (the (html_start l)) [l]) ls)"
| "md_go (OpenHtml k acc) (l # ls) =
     (if k = 6 then
        (if md_blank l then HtmlBlock acc # md_go NoBlock ls else md_go (OpenHtml k (acc @ [l])) ls)
      else if html_end k l then HtmlBlock (acc @ [l]) # md_go NoBlock ls
      else md_go (OpenHtml k (acc @ [l])) ls)"
| "md_go (OpenCode acc pend) (l # ls) =
     (if md_blank l then md_go (OpenCode acc (pend @ [drop 4 l])) ls
      else if 4 \<le> md_indent l then md_go (OpenCode (acc @ pend @ [drop 4 l]) []) ls
      else CodeBlock acc # md_go NoBlock (l # ls))"
| "md_go (OpenPara acc) (l # ls) =
     (if md_blank l then Para acc # md_go NoBlock ls
      else if html_start l \<noteq> None then Para acc # md_go NoBlock (l # ls)
      else md_go (OpenPara (acc @ [l])) ls)"
  by pat_completeness auto
termination
  by (relation "measure (\<lambda>(st, ls). 2 * length ls + md_rank st)") (auto simp: md_rank_def)

definition md_blocks :: "string \<Rightarrow> md_block list" where
  "md_blocks s = md_go NoBlock (split_nl s)"

text \<open>What \<^verbatim>\<open>st.markdown\<close> hands to the page for a body.\<close>

definition st_markdown_blocks :: "string \<Rightarrow> md_block list" where
  "st_markdown_blocks body = md_blocks (clean_text body)"

text \<open>The lines passed through as raw HTML, and the lines shown as literal code.\<close>

fun html_lines :: "md_block list \<Rightarrow> string list" where
  "html_lines [] = []"
| "html_lines (HtmlBlock ls # bs) = ls @ html_lines bs"
| "html_lines (_ # bs) = html_lines bs"

fun code_lines :: "md_block list \<Rightarrow> string list" where
  "code_lines [] = []"
| "code_lines (CodeBlock ls # bs) = ls @ code_lines bs"
| "code_lines (_ # bs) = code_lines bs"

text \<open>
  A body that is one HTML block from its first line to its last: the first line opens
  a block of start condition \<open>k\<close>, and only the last line ends it.
\<close>

definition html_block_lines :: "nat \<Rightarrow> string list \<Rightarrow> bool" where
  "html_block_lines k c \<longleftrightarrow>
     2 \<le> length c \<and> html_start (hd c) = Some k \<and> \<not> html_end k (hd c)
     \<and> list_all (\<lambda>l. \<not> html_end k l) (butlast (tl c)) \<and> html_end k (last c)"

section \<open>Computing line by line\<close>

lemma dedent_lines_nl_free: "list_all nl_free ls \<Longrightarrow> list_all nl_free (dedent_lines ls)"
  by (auto simp: dedent_lines_def Let_def list_all_iff nl_free_def dest: in_set_dropD)

lemma dedent_lines_not_Nil: "ls \<noteq> [] \<Longrightarrow> dedent_lines ls \<noteq> []"
  by (simp add: dedent_lines_def Let_def)

lemma clean_text_unlines:
  assumes "ls \<noteq> []" and "list_all nl_free ls"
  shows "clean_text (unlines ls) = unlines (clean_lines ls)"
  using assms by (simp add: clean_text_def dedent_def split_nl_unlines py_strip_unlines clean_lines_def)

lemma clean_lines_ok:
  assumes "ls \<noteq> []" and "list_all nl_free ls"
  shows "clean_lines ls \<noteq> [] \<and> list_all nl_free (clean_lines ls)"
  using assms
  by (simp add: clean_lines_def strip_lines_not_Nil dedent_lines_not_Nil strip_lines_nl_free
                dedent_lines_nl_free)

lemma st_markdown_blocks_unlines:
  assumes "ls \<noteq> []" and "list_all nl_free ls"
  shows "st_markdown_blocks (unlines ls) = md_go NoBlock (clean_lines ls)"
  using assms clean_lines_ok [OF assms]
  by (simp add: st_markdown_blocks_def md_blocks_def clean_text_unlines split_nl_unlines)

section \<open>Long bodies in pieces\<close>

text \<open>
  Lemmas that compute \<open>clean_text\<close> and the blocks of a long body from facts
  about its lines taken group by group, so that no whole body is evaluated at once.
\<close>

lemma common_prefix_prefix: "take (length m) x = m \<Longrightarrow> common_prefix m x = m"
  by (induction m x rule: common_prefix.induct) auto

lemma dedent_margin_eq:
  assumes "\<not> tw_blank a" and "list_all tw_blank pre"
    and "list_all (\<lambda>l. tw_blank l \<or> take (length (tw_indent a)) (tw_indent l) = tw_indent a) post"
  shows "dedent_margin (pre @ a # post) = tw_indent a"
proof -
  have f: "filter (\<lambda>l. \<not> tw_blank l) (pre @ a # post) = a # filter (\<lambda>l. \<not> tw_blank l) post"
    using assms(1,2) by (simp add: list_all_iff)
  have "fold (\<lambda>l m. common_prefix m (tw_indent l)) xs (tw_indent a) = tw_indent a"
    if "list_all (\<lambda>l. take (length (tw_indent a)) (tw_indent l) = tw_indent a) xs" for xs
    using that by (induction xs) (simp_all add: common_prefix_prefix)
  moreover have "list_all (\<lambda>l. take (length (tw_indent a)) (tw_indent l) = tw_indent a)
                   (filter (\<lambda>l. \<not> tw_blank l) post)"
    using assms(3) by (auto simp: list_all_iff)
  ultimately show ?thesis unfolding dedent_margin_def f by simp
qed

lemma clean_lines_frame:
  assumes "tw_blank z" and "tw_blank e" and "\<not> tw_blank a" and "\<not> tw_blank b"
    and "list_all (\<lambda>l. tw_blank l \<or> take (length (tw_indent a)) (tw_indent l) = tw_indent a) (ms @ [b, e])"
    and "\<not> list_all py_space (drop (length (tw_indent a)) a)"
    and "\<not> list_all py_space (drop (length (tw_indent a)) b)"
  shows "clean_lines (z # a # ms @ [b, e]) =
           lstrip (drop (length (tw_indent a)) a)
           # map (\<lambda>l. if tw_blank l then [] else drop (length (tw_indent a)) l) ms
           @ [rstrip (drop (length (tw_indent a)) b)]"
proof -
  have "dedent_margin ([z] @ a # ms @ [b, e]) = tw_indent a"
    using assms(1,3,5) by (intro dedent_margin_eq) simp_all
  then have "dedent_lines (z # a # ms @ [b, e]) =
               [] # drop (length (tw_indent a)) a
               # map (\<lambda>l. if tw_blank l then [] else drop (length (tw_indent a)) l) ms
               @ [drop (length (tw_indent a)) b, []]"
    using assms(1-4) by (simp add: dedent_lines_def Let_def)
  then show ?thesis
    using assms(6,7) by (simp add: clean_lines_def strip_lines_frame)
qed

lemma html_start_shape:
  assumes "html_start l = Some k"
  shows "md_indent l \<le> 3 \<and> (take 1 (drop (md_indent l) l) = ''<'' \<or> startswith (drop (md_indent l) l) ''<!--'')"
proof (cases "3 < md_indent l")
  case True
  with assms show ?thesis by (simp add: html_start_def)
next
  case False
  let ?r = "drop (md_indent l) l"
  show ?thesis
  proof (cases "take 1 ?r = ''<'' \<or> startswith ?r ''<!--''")
    case True
    with False show ?thesis by simp
  next
    case n: False
    then have "html_start l = None"
      unfolding html_start_def Let_def by simp
    with assms show ?thesis by simp
  qed
qed

lemma startswith_comment_lt: "startswith r ''<!--'' \<Longrightarrow> take 1 r = ''<''"
  by (cases r) simp_all

lemma tw_ws_lt: "\<not> tw_ws CHR ''<''"
  by (simp add: tw_ws_def)

lemma html_start_Some:
  assumes "html_start l = Some k"
  shows "\<not> md_blank l \<and> md_indent l < 4"
proof -
  let ?r = "drop (md_indent l) l"
  have i: "md_indent l \<le> 3" and "take 1 ?r = ''<''"
    using html_start_shape [OF assms] startswith_comment_lt [of ?r] by blast+
  then have "CHR ''<'' \<in> set ?r" by (cases ?r) simp_all
  then have "CHR ''<'' \<in> set l" by (rule in_set_dropD)
  then have "\<not> md_blank l" unfolding md_blank_def list_all_iff using tw_ws_lt by blast
  with i show ?thesis by simp
qed

lemma contains_ci_absent:
  assumes "\<And>x. lower x = c \<Longrightarrow> x = c" and "c \<notin> set s"
  shows "\<not> contains_ci s (c # p)"
  using assms(2)
proof (induction s)
  case (Cons a s)
  then have "a \<noteq> c" and s: "c \<notin> set s" by auto
  then have "lower a \<noteq> c" using assms(1) by blast
  with Cons.IH [OF s] show ?case by simp
qed simp

text \<open>\<open>html_end\<close> with a quick test first: no closing tag of condition 1 without a \<open><\<close>.\<close>

lemma html_end_quick:
  "html_end k l =
     (if k = 1 then CHR ''<'' \<in> set l \<and> list_ex (\<lambda>t. contains_ci l (''</'' @ t @ ''>'')) html1_tags
      else if k = 2 then contains_ci l ''-->'' else False)"
proof -
  have "\<not> contains_ci l (''</'' @ t @ ''>'')" if "CHR ''<'' \<notin> set l" for t
    using contains_ci_absent [of "CHR ''<''" l] that lower_eq_lt by simp
  then show ?thesis by (auto simp: html_end_def list_ex_iff)
qed

lemma md_go_html_run:
  "k \<noteq> 6 \<Longrightarrow> list_all (\<lambda>l. \<not> html_end k l) ls \<Longrightarrow>
   md_go (OpenHtml k acc) (ls @ rest) = md_go (OpenHtml k (acc @ ls)) rest"
  by (induction ls arbitrary: acc) simp_all

lemma md_go_html_block:
  assumes "k \<noteq> 6" and "html_block_lines k c"
  shows "md_go NoBlock c = [HtmlBlock c]"
proof -
  from assms(2) have "2 \<le> length c" by (simp add: html_block_lines_def)
  then obtain a t where c: "c = a # t" by (cases c) auto
  with \<open>2 \<le> length c\<close> have "t \<noteq> []" by auto
  then obtain ms b where t: "t = ms @ [b]" by (cases t rule: rev_cases) auto
  from assms(2) have s: "html_start a = Some k" "\<not> html_end k a"
    "list_all (\<lambda>l. \<not> html_end k l) ms" "html_end k b"
    by (simp_all add: html_block_lines_def c t)
  from s(1) have "\<not> md_blank a" "\<not> 4 \<le> md_indent a" by (auto dest: html_start_Some)
  with s assms(1) show ?thesis by (simp add: c t md_go_html_run)
qed


end
