(* ===== verification/Clock.thy ===== *)
theory Clock
  imports Prelude
begin

text \<open>
  Time in \<^verbatim>\<open>src/dashboard.py\<close> (lines 261--262, 422, 450): the script reads
  \<^verbatim>\<open>now = datetime.now()\<close> once, builds the six chart time stamps
  \<^verbatim>\<open>[now - timedelta(hours=h) for h in [20, 16, 12, 8, 4, 0]]\<close> and formats
  \<^verbatim>\<open>now.strftime("%I:%M:%S %p")\<close> twice for the "Last checked" lines.

  A naive \<^verbatim>\<open>datetime\<close> is in bijection with its offset in microseconds from
  \<^verbatim>\<open>datetime.min\<close> (0001-01-01 00:00:00); the model uses that offset, an
  \<open>int\<close> in the range CPython allows (up to 9999-12-31 23:59:59.999999, day
  ordinal 3652059). A \<^verbatim>\<open>timedelta\<close> is likewise its length in microseconds,
  with CPython's bound of 999999999 days. Subtraction outside the range raises
  \<^verbatim>\<open>OverflowError\<close>, as CPython's \<^verbatim>\<open>datetime.__sub__\<close> does.
\<close>

section \<open>datetime and timedelta\<close>

type_synonym datetime = int
type_synonym timedelta = int

definition us_per_second :: int where
  "us_per_second = 1000000"

definition us_per_hour :: int where
  "us_per_hour = 3600 * us_per_second"

definition us_per_day :: int where
  "us_per_day = 86400 * us_per_second"

text \<open>\<^verbatim>\<open>date.max.toordinal()\<close>: the number of days from 0001-01-01 to 9999-12-31.\<close>

definition max_ordinal :: int where
  "max_ordinal = 3652059"

definition datetime_ok :: "datetime \<Rightarrow> bool" where
  "datetime_ok t \<longleftrightarrow> 0 \<le> t \<and> t < max_ordinal * us_per_day"

text \<open>\<^verbatim>\<open>timedelta(hours=h)\<close>: normalised to days, rejected beyond 999999999 days.\<close>

definition timedelta_hours :: "int \<Rightarrow> timedelta py_result" where
  "timedelta_hours h =
     (let d = h * us_per_hour in
      if \<bar>d div us_per_day\<bar> \<le> 999999999 then Inr d
      else Inl (OverflowError ''days must have magnitude <= 999999999''))"

text \<open>\<^verbatim>\<open>dt - td\<close>.\<close>

definition dt_sub :: "datetime \<Rightarrow> timedelta \<Rightarrow> datetime py_result" where
  "dt_sub t d =
     (if datetime_ok (t - d) then Inr (t - d)
      else Inl (OverflowError ''date value out of range''))"

section \<open>The chart's time stamps (lines 261--262)\<close>

definition hour_offsets :: "int list" where
  "hour_offsets = [20, 16, 12, 8, 4, 0]"

declare hour_offsets_def [source_literals]

text \<open>The element expression \<^verbatim>\<open>now - timedelta(hours=h)\<close> of the comprehension.\<close>

definition time_point :: "datetime \<Rightarrow> int \<Rightarrow> datetime py_result" where
  "time_point now h = (case timedelta_hours h of Inl e \<Rightarrow> Inl e | Inr d \<Rightarrow> dt_sub now d)"

definition time_points :: "datetime \<Rightarrow> datetime list py_result" where
  "time_points now = py_map (time_point now) hour_offsets"

section \<open>\<^verbatim>\<open>strftime("%I:%M:%S %p")\<close> (lines 422 and 450)\<close>

text \<open>
  The time of day of a \<^verbatim>\<open>datetime\<close>: days start at multiples of 86400 seconds
  from \<^verbatim>\<open>datetime.min\<close>, so the fields \<^verbatim>\<open>hour\<close>, \<^verbatim>\<open>minute\<close>,
  \<^verbatim>\<open>second\<close> are read off the second of the day.
\<close>

definition sec_of_day :: "datetime \<Rightarrow> nat" where
  "sec_of_day t = nat ((t div us_per_second) mod 86400)"

definition dt_hour :: "datetime \<Rightarrow> nat" where
  "dt_hour t = sec_of_day t div 3600"

definition dt_minute :: "datetime \<Rightarrow> nat" where
  "dt_minute t = sec_of_day t mod 3600 div 60"

definition dt_second :: "datetime \<Rightarrow> nat" where
  "dt_second t = sec_of_day t mod 60"

text \<open>\<^verbatim>\<open>%I\<close>: the hour on the 12-hour clock, 01 to 12, zero-padded.\<close>

definition hour12 :: "nat \<Rightarrow> nat" where
  "hour12 h = (if h mod 12 = 0 then 12 else h mod 12)"

definition fmt_I :: "datetime \<Rightarrow> string" where
  "fmt_I t = pad2 (hour12 (dt_hour t))"

definition fmt_M :: "datetime \<Rightarrow> string" where
  "fmt_M t = pad2 (dt_minute t)"

definition fmt_S :: "datetime \<Rightarrow> string" where
  "fmt_S t = pad2 (dt_second t)"

text \<open>\<^verbatim>\<open>%p\<close> in the C locale the script runs under.\<close>

definition fmt_p :: "datetime \<Rightarrow> string" where
  "fmt_p t = (if dt_hour t < 12 then ''AM'' else ''PM'')"

definition clock_string :: "datetime \<Rightarrow> string" where
  "clock_string t = fmt_I t @ '':'' @ fmt_M t @ '':'' @ fmt_S t @ '' '' @ fmt_p t"

text \<open>
  Reading such a string back (not part of the program: the inverse the
  round-trip lemma is stated with), to the second of the day.
\<close>

definition parse_clock :: "string \<Rightarrow> nat option" where
  "parse_clock s =
     (case s of
        [h1, h2, c1, m1, m2, c2, s1, s2, sp, a, b] \<Rightarrow>
          (if c1 = CHR '':'' \<and> c2 = CHR '':'' \<and> sp = CHR '' '' \<and> b = CHR ''M''
              \<and> (a = CHR ''A'' \<or> a = CHR ''P'')
           then (case (read2 [h1, h2], read2 [m1, m2], read2 [s1, s2]) of
                   (Some h, Some m, Some sec) \<Rightarrow>
                     (if 1 \<le> h \<and> h \<le> 12 \<and> m < 60 \<and> sec < 60
                      then Some ((h mod 12 + (if a = CHR ''P'' then 12 else 0)) * 3600 + m * 60 + sec)
                      else None)
                 | _ \<Rightarrow> None)
           else None)
      | _ \<Rightarrow> None)"

section \<open>Lemmas\<close>

lemma us_per_values [simp]:
  "us_per_second = 1000000" "us_per_hour = 3600000000" "us_per_day = 86400000000"
  by (simp_all add: us_per_second_def us_per_hour_def us_per_day_def)

lemma sec_of_day_bound [simp]: "sec_of_day t < 86400"
  by (simp add: sec_of_day_def nat_less_iff)

lemma dt_hour_bound [simp]: "dt_hour t < 24"
  by (simp add: dt_hour_def less_mult_imp_div_less)

lemma dt_minute_bound [simp]: "dt_minute t < 60"
  by (simp add: dt_minute_def less_mult_imp_div_less)

lemma dt_second_bound [simp]: "dt_second t < 60"
  by (simp add: dt_second_def)

lemma hour12_range: "1 \<le> hour12 h \<and> hour12 h \<le> 12"
  by (simp add: hour12_def)

lemma hour12_recover:
  "h < 24 \<Longrightarrow> hour12 h mod 12 + (if h < 12 then 0 else 12) = h"
  unfolding hour12_def by (cases "h < 12") (simp_all, presburger)

lemma sec_of_day_split:
  "sec_of_day t = dt_hour t * 3600 + dt_minute t * 60 + dt_second t"
proof -
  let ?n = "sec_of_day t"
  have "?n mod 3600 = ?n mod 3600 div 60 * 60 + ?n mod 3600 mod 60" by simp
  moreover have "?n mod 3600 mod 60 = ?n mod 60" by (simp add: mod_mod_cancel)
  ultimately show ?thesis
    unfolding dt_hour_def dt_minute_def dt_second_def by (metis add.assoc div_mult_mod_eq)
qed

lemma set_clock_string: "set (clock_string t) \<subseteq> set decimal_digits \<union> set '': APM''"
proof -
  have "hour12 (dt_hour t) < 100" "dt_minute t < 100" "dt_second t < 100"
    using hour12_range [of "dt_hour t"] dt_minute_bound [of t] dt_second_bound [of t] by linarith+
  then show ?thesis
    using set_pad2 [of "hour12 (dt_hour t)"] set_pad2 [of "dt_minute t"] set_pad2 [of "dt_second t"]
    by (auto simp: clock_string_def fmt_I_def fmt_M_def fmt_S_def fmt_p_def)
qed

lemma nl_free_clock_string [simp]: "nl_free (clock_string t)"
proof -
  have "CHR ''\<newline>'' \<notin> set decimal_digits \<union> set '': APM''" by (simp add: decimal_digits_def)
  with set_clock_string [of t] show ?thesis by (auto simp: nl_free_def)
qed

lemma timedelta_hours_small:
  "\<bar>h\<bar> \<le> 24 \<Longrightarrow> timedelta_hours h = Inr (h * us_per_hour)"
  by (simp add: timedelta_hours_def Let_def)

lemma time_point_ok:
  "\<bar>h\<bar> \<le> 24 \<Longrightarrow> datetime_ok (now - h * us_per_hour) \<Longrightarrow>
   time_point now h = Inr (now - h * us_per_hour)"
  by (simp add: time_point_def timedelta_hours_small dt_sub_def del: us_per_values)

lemma time_point_Inr:
  "time_point now h = Inr y \<Longrightarrow> y = now - h * us_per_hour"
  by (auto simp: time_point_def timedelta_hours_def dt_sub_def Let_def
           split: sum.splits if_splits simp del: us_per_values)

lemma time_points_Inr_map:
  "time_points now = Inr ts \<Longrightarrow> ts = map (\<lambda>h. now - h * us_per_hour) hour_offsets"
  unfolding time_points_def by (rule py_map_Inr_map) (rule time_point_Inr)

section \<open>Properties\<close>

text \<open>
  C5: For every instant at least 20 hours after \<^verbatim>\<open>datetime.min\<close>,
  the comprehension of line 262 succeeds and yields
  \<^verbatim>\<open>now - 20h, now - 16h, ..., now - 4h, now\<close> in this order.
\<close>

theorem time_points_ok:
  assumes "datetime_ok now" and "20 * us_per_hour \<le> now"
  shows "time_points now =
           Inr [now - 20 * us_per_hour, now - 16 * us_per_hour, now - 12 * us_per_hour,
                now - 8 * us_per_hour, now - 4 * us_per_hour, now]"
proof -
  have "time_point now h = Inr (now - h * us_per_hour)" if "h \<in> set hour_offsets" for h
  proof -
    from that have h: "0 \<le> h" "h \<le> 20" by (auto simp: hour_offsets_def)
    with assms have "datetime_ok (now - h * us_per_hour)" by (simp add: datetime_ok_def)
    with h show ?thesis by (simp add: time_point_ok del: us_per_values)
  qed
  then have "list_all (\<lambda>h. time_point now h = Inr (now - h * us_per_hour)) hour_offsets"
    by (simp add: list_all_iff)
  then have "time_points now = Inr (map (\<lambda>h. now - h * us_per_hour) hour_offsets)"
    unfolding time_points_def by (rule py_map_all_Inr)
  then show ?thesis by (simp add: hour_offsets_def del: us_per_values)
qed

text \<open>
  C7: Within the first 20 hours of \<^verbatim>\<open>datetime.min\<close> the first
  element, \<^verbatim>\<open>now - timedelta(hours=20)\<close>, is out of range: line 262 raises
  \<^verbatim>\<open>OverflowError\<close> and the script stops before any chart is built.
\<close>

theorem time_points_overflow:
  assumes "datetime_ok now" and "now < 20 * us_per_hour"
  shows "time_points now = Inl (OverflowError ''date value out of range'')"
  using assms
  by (simp add: time_points_def hour_offsets_def time_point_def timedelta_hours_small
                dt_sub_def datetime_ok_def del: us_per_values)

text \<open>
  C6: Whenever the time stamps are built, there are six of them,
  strictly increasing, four hours apart, the last one being \<^verbatim>\<open>now\<close>.
\<close>

theorem time_points_spacing:
  assumes "time_points now = Inr ts"
  shows "length ts = 6 \<and> sorted_wrt (<) ts \<and> last ts = now
         \<and> (\<forall>i < 5. ts ! Suc i - ts ! i = 4 * us_per_hour)"
proof -
  from assms have "ts = map (\<lambda>h. now - h * us_per_hour) hour_offsets"
    by (rule time_points_Inr_map)
  then show ?thesis by (simp add: hour_offsets_def less_Suc_eq numeral_eq_Suc)
qed

text \<open>
  C12: The "Last checked" string \<^verbatim>\<open>now.strftime("%I:%M:%S %p")\<close>
  determines the time of day to the second: reading it back gives the second of
  the day of \<^verbatim>\<open>now\<close>.
\<close>

theorem clock_roundtrip: "parse_clock (clock_string t) = Some (sec_of_day t)"
proof -
  let ?h = "dt_hour t" and ?m = "dt_minute t" and ?s = "dt_second t"
  have r: "n < 100 \<Longrightarrow> read2 [digit_char (n div 10), digit_char (n mod 10)] = Some n" for n
    using read2_pad2 [of n] by (simp add: pad2_def)
  have b: "hour12 ?h < 100" "?m < 100" "?s < 100"
    using hour12_range [of ?h] dt_minute_bound [of t] dt_second_bound [of t] by linarith+
  have "parse_clock (clock_string t) =
        Some ((hour12 ?h mod 12 + (if ?h < 12 then 0 else 12)) * 3600 + ?m * 60 + ?s)"
    using hour12_range [of ?h] b
    by (simp add: parse_clock_def clock_string_def fmt_I_def fmt_M_def fmt_S_def fmt_p_def
                  pad2_def r)
  also have "\<dots> = Some (sec_of_day t)"
    by (simp add: hour12_recover sec_of_day_split)
  finally show ?thesis .
qed


end
