(* ===== verification/Markup.thy ===== *)
theory Markup
  imports Markdown Clock
begin

text \<open>
  The page markup of \<^verbatim>\<open>src/dashboard.py\<close>: the bodies of its
  \<^verbatim>\<open>st.markdown\<close> calls as the exact strings of the source (each a
  triple-quoted literal: a first empty line, the source lines, and the
  indentation before the closing quotes), \<^verbatim>\<open>str.format\<close> that fills the
  "Last checked" time into the two panel templates, and a reading of HTML text
  into start tags, end tags and text, from which the summary cards and sensor
  cards a body declares are extracted.
\<close>

section \<open>The markup literals\<close>

text \<open>The top bar, \<^verbatim>\<open>st.markdown\<close> of lines 273--290.\<close>

definition top_bar_md :: string where
  \<open>top_bar_md = unlines
     [''''
     ,''    <div class="top-bar">''
     ,''        <div class="brand-left">''
     ,''            <div class="brand-icon">'' @ u_droplet @ ''</div>''
     ,''            <div>''
     ,''                <div class="brand-title">AQUAPONICS '' @ u_emdash @ '' PREVIEW</div>''
     ,''                <div class="brand-subtitle">Realtime ecosystem monitoring '' @ u_bullet @ '' AI-assisted insights</div>''
     ,''            </div>''
     ,''        </div>''
     ,''        <div class="top-buttons">''
     ,''            <button class="pill-btn pill-primary">Preview Dark</button>''
     ,''            <button class="pill-btn pill-secondary">Logout</button>''
     ,''        </div>''
     ,''    </div>''
     ,''    '']\<close>

declare top_bar_md_def [source_literals]

text \<open>The hero panel with the three summary cards, lines 295--328.\<close>

definition hero_md :: string where
  \<open>hero_md = unlines
     [''''
     ,''    <div class="panel">''
     ,''        <h1 style="font-size: 34px; font-weight: 800; margin-bottom: 4px; color:#0f172a;">''
     ,''            Sustainable Aquaponics''
     ,''        </h1>''
     ,''        <p style="font-size: 14px; color:#64748b; max-width: 640px;">''
     ,''            Symbiotic cycle: fish '' @ u_rarrow @ '' nutrient-rich water '' @ u_rarrow @ '' plants. This dashboard visualizes the living system''
     ,''            and alerts you when parameters drift.''
     ,''        </p>''
     ,''''
     ,''        <div class="summary-row">''
     ,''            <div class="summary-card">''
     ,''                <div class="summary-label">Fish Count</div>''
     ,''                <div class="summary-value">12</div>''
     ,''                <div class="summary-sub">Tank A '' @ u_middot @ '' Live</div>''
     ,''            </div>''
     ,''''
     ,''            <div class="summary-card">''
     ,''                <div class="summary-label">Plant Status</div>''
     ,''                <div class="summary-value">Fresh</div>''
     ,''                <div class="summary-sub">Mint & leafy greens</div>''
     ,''            </div>''
     ,''''
     ,''            <div class="summary-card">''
     ,''                <div class="summary-label">System Health</div>''
     ,''                <div class="summary-value">98%</div>''
     ,''                <div class="summary-sub">AI-assessed '' @ u_middot @ '' Stable</div>''
     ,''            </div>''
     ,''        </div>''
     ,''    </div>''
     ,''    '']\<close>

declare hero_md_def [source_literals]

text \<open>The sensor panel with the five sensor cards, lines 333--395.\<close>

definition sensors_md :: string where
  \<open>sensors_md = unlines
     [''''
     ,''    <div class="panel">''
     ,''        <div style="display:flex; justify-content:space-between; align-items:center;">''
     ,''            <h2 style="font-size: 20px; font-weight: 800; margin: 0;">Water & Environment</h2>''
     ,''            <span style="font-size:13px; color:#94a3b8;">All values simulated '' @ u_middot @ '' Demo view</span>''
     ,''        </div>''
     ,''''
     ,''        <div class="sensor-grid">''
     ,''            <div class="sensor-card">''
     ,''                <div class="sensor-badge">Optimal</div>''
     ,''                <div class="sensor-title">pH Level</div>''
     ,''                <div>''
     ,''                    <span class="sensor-value">7.39</span>''
     ,''                    <span class="sensor-unit">pH</span>''
     ,''                </div>''
     ,''                <div class="sensor-bar"></div>''
     ,''            </div>''
     ,''''
     ,''            <div class="sensor-card">''
     ,''                <div class="sensor-badge">Optimal</div>''
     ,''                <div class="sensor-title">Turbidity</div>''
     ,''                <div>''
     ,''                    <span class="sensor-value">15</span>''
     ,''                    <span class="sensor-unit">NTU</span>''
     ,''                </div>''
     ,''                <div class="sensor-bar"></div>''
     ,''            </div>''
     ,''''
     ,''            <div class="sensor-card">''
     ,''                <div class="sensor-badge">Optimal</div>''
     ,''                <div class="sensor-title">Humidity</div>''
     ,''                <div>''
     ,''                    <span class="sensor-value">71</span>''
     ,''                    <span class="sensor-unit">%</span>''
     ,''                </div>''
     ,''                <div class="sensor-bar"></div>''
     ,''            </div>''
     ,''''
     ,''            <div class="sensor-card">''
     ,''                <div class="sensor-badge">Optimal</div>''
     ,''                <div class="sensor-title">Light Intensity</div>''
     ,''                <div>''
     ,''                    <span class="sensor-value">864</span>''
     ,''                    <span class="sensor-unit">lux</span>''
     ,''                </div>''
     ,''                <div class="sensor-bar"></div>''
     ,''            </div>''
     ,''''
     ,''            <div class="sensor-card">''
     ,''                <div class="sensor-badge">Optimal</div>''
     ,''                <div class="sensor-title">Temperature</div>''
     ,''                <div>''
     ,''                    <span class="sensor-value">23.3</span>''
     ,''                    <span class="sensor-unit">'' @ u_degree @ ''C</span>''
     ,''                </div>''
     ,''                <div class="sensor-bar"></div>''
     ,''            </div>''
     ,''        </div>''
     ,''    </div>''
     ,''    '']\<close>

declare sensors_md_def [source_literals]

text \<open>The template of the fish panel header, lines 403--425, before \<^verbatim>\<open>.format\<close>.\<close>

definition fish_panel_lines :: "string list" where
  \<open>fish_panel_lines =
     [''''
     ,''        <div class="panel">''
     ,''            <div class="health-header">''
     ,''                <div>''
     ,''                    <div class="health-title">Fish Health & Activity</div>''
     ,''                    <div class="health-sub">''
     ,''                        AI vision indicates: <span class="tag-healthy">Healthy (94.2% confidence)</span>''
     ,''                    </div>''
     ,''                </div>''
     ,''            </div>''
     ,''            <div class="soft-btn-row">''
     ,''                <button class="soft-btn soft-btn-primary">Run Scan</button>''
     ,''                <button class="soft-btn soft-btn-outline">Download Report</button>''
     ,''            </div>''
     ,''            <div class="health-time">''
     ,''                Last checked: {time}''
     ,''            </div>''
     ,''        '']\<close>

definition fish_panel_tpl :: string where
  "fish_panel_tpl = unlines fish_panel_lines"

declare fish_panel_lines_def [source_literals] fish_panel_tpl_def [source_literals]

text \<open>The template of the plant panel header, lines 431--453, before \<^verbatim>\<open>.format\<close>.\<close>

definition plant_panel_lines :: "string list" where
  \<open>plant_panel_lines =
     [''''
     ,''        <div class="panel">''
     ,''            <div class="health-header">''
     ,''                <div>''
     ,''                    <div class="health-title">Plant Health & Growth</div>''
     ,''                    <div class="health-sub">''
     ,''                        AI vision indicates: <span class="tag-healthy">Fresh (91.8% confidence)</span>''
     ,''                    </div>''
     ,''                </div>''
     ,''            </div>''
     ,''            <div class="soft-btn-row">''
     ,''                <button class="soft-btn soft-btn-primary">Run Scan</button>''
     ,''                <button class="soft-btn soft-btn-outline">Download Report</button>''
     ,''            </div>''
     ,''            <div class="health-time">''
     ,''                Last checked: {time}''
     ,''            </div>''
     ,''        '']\<close>

definition plant_panel_tpl :: string where
  "plant_panel_tpl = unlines plant_panel_lines"

declare plant_panel_lines_def [source_literals] plant_panel_tpl_def [source_literals]


text \<open>The body \<^verbatim>\<open>"</div>"\<close> of lines 428 and 456.\<close>

definition panel_close_md :: string where
  "panel_close_md = ''</div>''"

declare panel_close_md_def [source_literals]

section \<open>\<^verbatim>\<open>str.format\<close> with keyword arguments\<close>

text \<open>
  Replacement fields \<^verbatim>\<open>{name}\<close> are looked up among the keyword arguments
  (\<^verbatim>\<open>KeyError\<close> if absent; an empty or numeric name refers to the positional
  arguments, of which there are none: \<^verbatim>\<open>IndexError\<close>); \<^verbatim>\<open>{{\<close> and
  \<^verbatim>\<open>}}\<close> are literal braces; an unmatched brace is a \<^verbatim>\<open>ValueError\<close>.
  Conversions and format specifications inside a field are not modelled: the
  script's templates have none.
\<close>

definition py_prepend :: "string \<Rightarrow> string py_result \<Rightarrow> string py_result" where
  "py_prepend p r = (case r of Inl e \<Rightarrow> Inl e | Inr s \<Rightarrow> Inr (p @ s))"

definition all_digits :: "string \<Rightarrow> bool" where
  "all_digits s \<longleftrightarrow> list_all (\<lambda>c. char_digit c \<noteq> None) s"

function py_format :: "string \<Rightarrow> (string \<times> string) list \<Rightarrow> string py_result" where
  "py_format [] kw = Inr []"
| "py_format (c # s) kw =
     (if c = CHR ''{'' then
        (if take 1 s = ''{'' then py_prepend ''{'' (py_format (drop 1 s) kw)
         else if s = [] then Inl (ValueError ''Single '{' encountered in format string'')
         else (let name = takeWhile (\<lambda>x. x \<noteq> CHR ''}'') s;
                   rest = dropWhile (\<lambda>x. x \<noteq> CHR ''}'') s in
               if rest = [] then Inl (ValueError ''expected '}' before end of string'')
               else if all_digits name then Inl (IndexError ''Replacement index out of range'')
               else (case map_of kw name of
                       None \<Rightarrow> Inl (KeyError name)
                     | Some v \<Rightarrow> py_prepend v (py_format (drop 1 rest) kw))))
      else if c = CHR ''}'' then
        (if take 1 s = ''}'' then py_prepend ''}'' (py_format (drop 1 s) kw)
         else Inl (ValueError ''Single '}' encountered in format string''))
      else py_prepend [c] (py_format s kw))"
  by pat_completeness auto
termination
  by (relation "measure (\<lambda>(s, kw). length s)") (auto simp: length_dropWhile_less_Suc)

lemma py_prepend_Inr: "py_prepend p (Inr s) = Inr (p @ s)"
  by (simp add: py_prepend_def)

lemma py_prepend_assoc: "py_prepend p (py_prepend q r) = py_prepend (p @ q) r"
  by (simp add: py_prepend_def split: sum.splits)

text \<open>
  A piece that formats on its own formats the same way in front of any text: no
  replacement field crosses its end.
\<close>

lemma py_format_append:
  "py_format xs kw = Inr a \<Longrightarrow> py_format (xs @ ys) kw = py_prepend a (py_format ys kw)"
proof (induction xs kw arbitrary: a rule: py_format.induct)
  case (1 kw)
  then show ?case by (simp add: py_prepend_def split: sum.splits)
next
  case (2 c s kw)
  show ?case
  proof (cases "c = CHR ''{''")
    case c: True
    show ?thesis
    proof (cases "take 1 s = ''{''")
      case True
      with c "2.prems" obtain b where b: "py_format (drop 1 s) kw = Inr b" and a: "a = ''{'' @ b"
        by (auto simp: py_prepend_def split: sum.splits)
      from True have "take 1 (s @ ys) = ''{''" by (cases s) auto
      moreover from True have "drop 1 (s @ ys) = drop 1 s @ ys" by (cases s) auto
      ultimately show ?thesis using c True "2.IH"(1) [OF c True b] a
        by (simp add: py_prepend_assoc)
    next
      case False
      let ?name = "takeWhile (\<lambda>x. x \<noteq> CHR ''}'') s"
      let ?rest = "dropWhile (\<lambda>x. x \<noteq> CHR ''}'') s"
      from c False "2.prems" obtain v b where
        r: "?rest \<noteq> []" and d: "\<not> all_digits ?name" and v: "map_of kw ?name = Some v"
        and b: "py_format (drop 1 ?rest) kw = Inr b" and a: "a = v @ b"
        by (auto simp: Let_def py_prepend_def split: if_splits option.splits sum.splits)
      from r have ne: "s \<noteq> []" by auto
      from r have m: "CHR ''}'' \<in> set s" by (auto simp: dropWhile_eq_Nil_conv)
      then have tw: "takeWhile (\<lambda>x. x \<noteq> CHR ''}'') (s @ ys) = ?name"
        and dw: "dropWhile (\<lambda>x. x \<noteq> CHR ''}'') (s @ ys) = ?rest @ ys"
        by (auto simp: takeWhile_append1 dropWhile_append1)
      from False r have "take 1 (s @ ys) \<noteq> ''{''" by (cases s) auto
      moreover from r have "drop 1 (?rest @ ys) = drop 1 ?rest @ ys" by (cases ?rest) auto
      ultimately show ?thesis
        using c False ne r d v tw dw a m "2.IH"(2) [OF c False ne refl refl _ _ v b]
        by (auto simp: Let_def py_prepend_assoc)
    qed
  next
    case nc: False
    show ?thesis
    proof (cases "c = CHR ''}''")
      case True
      with "2.prems" have t: "take 1 s = ''}''"
        by (auto split: if_splits)
      with True nc "2.prems" obtain b where b: "py_format (drop 1 s) kw = Inr b" and a: "a = ''}'' @ b"
        by (auto simp: py_prepend_def split: sum.splits)
      from t have "take 1 (s @ ys) = ''}''" by (cases s) auto
      moreover from t have "drop 1 (s @ ys) = drop 1 s @ ys" by (cases s) auto
      ultimately show ?thesis using nc True t "2.IH"(3) [OF nc True t b] a
        by (simp add: py_prepend_assoc)
    next
      case False
      with nc "2.prems" obtain b where b: "py_format s kw = Inr b" and a: "a = [c] @ b"
        by (auto simp: py_prepend_def split: sum.splits)
      with nc False "2.IH"(4) [OF nc False b] show ?thesis
        by (simp add: py_prepend_assoc)
    qed
  qed
qed

text \<open>Formatting a text line by line, when no field crosses a line end.\<close>

fun py_format_lines :: "string list \<Rightarrow> (string \<times> string) list \<Rightarrow> string list py_result" where
  "py_format_lines [] kw = Inr []"
| "py_format_lines (l # ls) kw =
     (case py_format l kw of
        Inl e \<Rightarrow> Inl e
      | Inr a \<Rightarrow> (case py_format_lines ls kw of Inl e \<Rightarrow> Inl e | Inr as \<Rightarrow> Inr (a # as)))"

lemma py_format_newline: "py_format (CHR ''\<newline>'' # s) kw = py_prepend ''\<newline>'' (py_format s kw)"
  by simp

lemma py_format_unlines:
  "py_format_lines ls kw = Inr as \<Longrightarrow> py_format (unlines ls) kw = Inr (unlines as)"
proof (induction ls arbitrary: as rule: unlines.induct)
  case 1
  then show ?case by simp
next
  case (2 l)
  then show ?case by (auto split: sum.splits)
next
  case (3 l v vs)
  from "3.prems" obtain a as' where a: "py_format l kw = Inr a"
    and r: "py_format_lines (v # vs) kw = Inr as'" and as: "as = a # as'"
    by (auto split: sum.splits)
  from r obtain b bs where "as' = b # bs" by (cases as') (auto split: sum.splits)
  have "py_format (l @ CHR ''\<newline>'' # unlines (v # vs)) kw
        = py_prepend a (py_format (CHR ''\<newline>'' # unlines (v # vs)) kw)"
    by (rule py_format_append [OF a])
  with "3.IH" [OF r] \<open>as' = b # bs\<close> as show ?case
    by (simp add: unlines_Cons py_prepend_def)
qed

text \<open>The two panel headers, \<^verbatim>\<open>tpl.format(time=now.strftime("%I:%M:%S %p"))\<close>.\<close>

definition fish_panel_md :: "datetime \<Rightarrow> string py_result" where
  "fish_panel_md now = py_format fish_panel_tpl [(''time'', clock_string now)]"

definition plant_panel_md :: "datetime \<Rightarrow> string py_result" where
  "plant_panel_md now = py_format plant_panel_tpl [(''time'', clock_string now)]"

section \<open>Reading HTML text\<close>

text \<open>
  Tokens as the HTML tokenizer produces them for this markup: a start tag with its
  lower-case name and its attributes, an end tag, or a text run (its white space
  collapsed, as the page displays it; white-space-only runs are dropped). Tags are
  delimited by \<^verbatim>\<open><\<close> and \<^verbatim>\<open>>\<close>; attribute values are quoted or bare.
  Character references and a \<^verbatim>\<open>>\<close> inside a quoted attribute value are not
  modelled: the markup has neither.
\<close>

datatype html_tok = StartTag string "(string \<times> string) list" | EndTag string | TextTok string

fun collapse_ws :: "bool \<Rightarrow> string \<Rightarrow> string" where
  "collapse_ws sp [] = []"
| "collapse_ws sp (c # s) =
     (if py_space c then (if sp then collapse_ws True s else CHR '' '' # collapse_ws True s)
      else c # collapse_ws False s)"

definition text_tok :: "string \<Rightarrow> html_tok list" where
  "text_tok s = (let t = py_strip (collapse_ws False s) in if t = [] then [] else [TextTok t])"

datatype attr_state = AName string | AEq string | AQuoted string string | ABare string string

fun attr_go :: "attr_state \<Rightarrow> string \<Rightarrow> (string \<times> string) list" where
  "attr_go (AName n) [] = (if n = [] then [] else [(rev n, [])])"
| "attr_go (AEq n) [] = [(rev n, [])]"
| "attr_go (AQuoted n v) [] = [(rev n, rev v)]"
| "attr_go (ABare n v) [] = [(rev n, rev v)]"
| "attr_go (AName n) (c # s) =
     (if py_space c then (if n = [] then attr_go (AName []) s else (rev n, []) # attr_go (AName []) s)
      else if c = CHR ''='' then attr_go (AEq n) s
      else attr_go (AName (lower c # n)) s)"
| "attr_go (AEq n) (c # s) =
     (if c = CHR 0x22 then attr_go (AQuoted n []) s
      else if py_space c then attr_go (AEq n) s
      else attr_go (ABare n [c]) s)"
| "attr_go (AQuoted n v) (c # s) =
     (if c = CHR 0x22 then (rev n, rev v) # attr_go (AName []) s else attr_go (AQuoted n (c # v)) s)"
| "attr_go (ABare n v) (c # s) =
     (if py_space c then (rev n, rev v) # attr_go (AName []) s else attr_go (ABare n (c # v)) s)"

definition tag_tok :: "string \<Rightarrow> html_tok" where
  "tag_tok t =
     (if take 1 t = ''/'' then EndTag (map lower (takeWhile (\<lambda>c. \<not> py_space c) (drop 1 t)))
      else StartTag (map lower (takeWhile (\<lambda>c. \<not> py_space c \<and> c \<noteq> CHR ''/'') t))
                    (attr_go (AName []) (dropWhile (\<lambda>c. \<not> py_space c) t)))"

datatype lex_state = InText string | InTag string

text \<open>One character: the tokens it completes, and the next state.\<close>

fun lex_step :: "lex_state \<Rightarrow> char \<Rightarrow> html_tok list \<times> lex_state" where
  "lex_step (InText acc) c =
     (if c = CHR ''<'' then (text_tok (rev acc), InTag []) else ([], InText (c # acc)))"
| "lex_step (InTag acc) c =
     (if c = CHR ''>'' then ([tag_tok (rev acc)], InText []) else ([], InTag (c # acc)))"

text \<open>
  The whole text, as a left fold over the characters carrying the tokens emitted so
  far and the state.
\<close>

fun lex_chars :: "html_tok list \<times> lex_state \<Rightarrow> string \<Rightarrow> html_tok list \<times> lex_state" where
  "lex_chars p [] = p"
| "lex_chars p (c # s) = lex_chars (fst p @ fst (lex_step (snd p) c), snd (lex_step (snd p) c)) s"

text \<open>At the end of the text a pending text run is emitted, an unfinished tag dropped.\<close>

fun lex_flush :: "lex_state \<Rightarrow> html_tok list" where
  "lex_flush (InText acc) = text_tok (rev acc)"
| "lex_flush (InTag acc) = []"

definition html_lex :: "string \<Rightarrow> html_tok list" where
  "html_lex s = (let p = lex_chars ([], InText []) s in fst p @ lex_flush (snd p))"

lemma lex_chars_append: "lex_chars p (xs @ ys) = lex_chars (lex_chars p xs) ys"
  by (induction p xs rule: lex_chars.induct) simp_all

lemma lex_chars_unlines_Cons:
  "ls \<noteq> [] \<Longrightarrow> lex_chars p (unlines (l # ls)) = lex_chars (lex_chars p (l @ ''\<newline>'')) (unlines ls)"
  using lex_chars_append [of p "l @ ''\<newline>''" "unlines ls"] by (simp add: unlines_Cons)

section \<open>Cards\<close>

fun ws_split :: "string \<Rightarrow> string \<Rightarrow> string list" where
  "ws_split acc [] = (if acc = [] then [] else [rev acc])"
| "ws_split acc (c # s) =
     (if py_space c then (if acc = [] then ws_split [] s else rev acc # ws_split [] s)
      else ws_split (c # acc) s)"

text \<open>
  Each start tag with its class names and the text right inside it (empty if an
  element or an end tag comes first), in document order.
\<close>

definition tag_classes :: "(string \<times> string) list \<Rightarrow> string list" where
  "tag_classes as = (case map_of as ''class'' of None \<Rightarrow> [] | Some v \<Rightarrow> ws_split [] v)"

fun tag_texts :: "html_tok list \<Rightarrow> (string list \<times> string) list" where
  "tag_texts [] = []"
| "tag_texts (StartTag n as # ts) =
     (tag_classes as, case ts of TextTok x # _ \<Rightarrow> x | _ \<Rightarrow> []) # tag_texts ts"
| "tag_texts (_ # ts) = tag_texts ts"

definition texts_of_class :: "string \<Rightarrow> (string list \<times> string) list \<Rightarrow> string list" where
  "texts_of_class c ps = map snd (filter (\<lambda>(cs, _). c \<in> set cs) ps)"

text \<open>The texts of the elements of a class, and the number of such elements.\<close>

definition class_texts :: "string \<Rightarrow> html_tok list \<Rightarrow> string list" where
  "class_texts c ts = texts_of_class c (tag_texts ts)"

definition count_class :: "string \<Rightarrow> html_tok list \<Rightarrow> nat" where
  "count_class c ts = length (texts_of_class c (tag_texts ts))"

record summary_card =
  sc_label :: string
  sc_value :: string
  sc_sub :: string

record sensor_card =
  sn_badge :: string
  sn_title :: string
  sn_value :: string
  sn_unit :: string

definition summary_cards :: "html_tok list \<Rightarrow> summary_card list" where
  "summary_cards ts =
     (let ps = tag_texts ts in
      map (\<lambda>((l, v), s). \<lparr>sc_label = l, sc_value = v, sc_sub = s\<rparr>)
        (zip (zip (texts_of_class ''summary-label'' ps) (texts_of_class ''summary-value'' ps))
             (texts_of_class ''summary-sub'' ps)))"

definition sensor_cards :: "html_tok list \<Rightarrow> sensor_card list" where
  "sensor_cards ts =
     (let ps = tag_texts ts in
      map (\<lambda>(((b, t), v), u). \<lparr>sn_badge = b, sn_title = t, sn_value = v, sn_unit = u\<rparr>)
        (zip (zip (zip (texts_of_class ''sensor-badge'' ps) (texts_of_class ''sensor-title'' ps))
                  (texts_of_class ''sensor-value'' ps))
             (texts_of_class ''sensor-unit'' ps)))"

text \<open>
  The elements left open after a fragment, innermost first, as HTML tree construction
  keeps them: a start tag opens an element, an end tag closes the innermost open
  element of its name together with those inside it, and an end tag with no open
  element of its name is ignored. The markup has no void or self-closing elements.
\<close>

fun open_elems :: "string list \<Rightarrow> html_tok list \<Rightarrow> string list" where
  "open_elems st [] = st"
| "open_elems st (StartTag n _ # ts) = open_elems (n # st) ts"
| "open_elems st (EndTag n # ts) =
     open_elems (if n \<in> set st then tl (dropWhile (\<lambda>m. m \<noteq> n) st) else st) ts"
| "open_elems st (TextTok _ # ts) = open_elems st ts"

text \<open>
  What the page shows of a body as HTML (the HTML blocks), and what it shows as
  literal text (the code blocks).
\<close>

definition rendered_html :: "string \<Rightarrow> html_tok list" where
  "rendered_html body = html_lex (unlines (html_lines (st_markdown_blocks body)))"

definition rendered_code :: "string \<Rightarrow> string list" where
  "rendered_code body = code_lines (st_markdown_blocks body)"

section \<open>Evaluation bundles\<close>

lemmas markup_eval = html_lex_def text_tok_def tag_tok_def py_strip_def lstrip_def rstrip_def
  lex_chars_unlines_Cons summary_cards_def sensor_cards_def count_class_def texts_of_class_def
  tag_classes_def Let_def

lemmas md_eval = clean_lines_def dedent_lines_def dedent_margin_def strip_lines_def tw_blank_def
  tw_ws_def tw_indent_def md_blank_def md_indent_def html_start_def html_end_def html1_tags_def
  html6_tags_def tag_then_def lstrip_def rstrip_def

lemma fish_panel_format:
  "py_format fish_panel_tpl [(''time'', x)] =
     Inr (unlines (fish_panel_lines[15 := ''                Last checked: '' @ x]))"
proof -
  have "py_format_lines fish_panel_lines [(''time'', x)] =
        Inr (fish_panel_lines[15 := ''                Last checked: '' @ x])"
    by (simp add: fish_panel_lines_def py_prepend_def all_digits_def char_digit_def)
  then show ?thesis unfolding fish_panel_tpl_def by (rule py_format_unlines)
qed

lemma plant_panel_format:
  "py_format plant_panel_tpl [(''time'', x)] =
     Inr (unlines (plant_panel_lines[15 := ''                Last checked: '' @ x]))"
proof -
  have "py_format_lines plant_panel_lines [(''time'', x)] =
        Inr (plant_panel_lines[15 := ''                Last checked: '' @ x])"
    by (simp add: plant_panel_lines_def py_prepend_def all_digits_def char_digit_def)
  then show ?thesis unfolding plant_panel_tpl_def by (rule py_format_unlines)
qed

text \<open>
  The templates with any keyword arguments: the only replacement field is
  \<^verbatim>\<open>{time}\<close>, on line 15.
\<close>

lemma panel_format_missing:
  "map_of kw ''time'' = None \<Longrightarrow> py_format fish_panel_tpl kw = Inl (KeyError ''time'')"
  "map_of kw ''time'' = None \<Longrightarrow> py_format plant_panel_tpl kw = Inl (KeyError ''time'')"
  by (simp_all add: fish_panel_tpl_def fish_panel_lines_def plant_panel_tpl_def plant_panel_lines_def
                    unlines_eqs py_prepend_def all_digits_def char_digit_def)

lemma panel_format_given:
  assumes "map_of kw ''time'' = Some v"
  shows "py_format fish_panel_tpl kw = Inr (unlines (fish_panel_lines[15 := ''                Last checked: '' @ v]))"
    and "py_format plant_panel_tpl kw = Inr (unlines (plant_panel_lines[15 := ''                Last checked: '' @ v]))"
proof -
  have "py_format_lines fish_panel_lines kw = Inr (fish_panel_lines[15 := ''                Last checked: '' @ v])"
    using assms by (simp add: fish_panel_lines_def py_prepend_def all_digits_def char_digit_def)
  then show "py_format fish_panel_tpl kw = Inr (unlines (fish_panel_lines[15 := ''                Last checked: '' @ v]))"
    unfolding fish_panel_tpl_def by (rule py_format_unlines)
  have "py_format_lines plant_panel_lines kw = Inr (plant_panel_lines[15 := ''                Last checked: '' @ v])"
    using assms by (simp add: plant_panel_lines_def py_prepend_def all_digits_def char_digit_def)
  then show "py_format plant_panel_tpl kw = Inr (unlines (plant_panel_lines[15 := ''                Last checked: '' @ v]))"
    unfolding plant_panel_tpl_def by (rule py_format_unlines)
qed

section \<open>Properties\<close>

text \<open>
  C9: The hero markup declares the three summary cards the spec asks
  for, in order: Fish Count 12, Plant Status Fresh, System Health 98%, each with its
  sub-caption.
\<close>

theorem hero_source_cards:
  "summary_cards (html_lex hero_md) =
     [\<lparr>sc_label = ''Fish Count'', sc_value = ''12'', sc_sub = ''Tank A '' @ u_middot @ '' Live''\<rparr>,
      \<lparr>sc_label = ''Plant Status'', sc_value = ''Fresh'', sc_sub = ''Mint & leafy greens''\<rparr>,
      \<lparr>sc_label = ''System Health'', sc_value = ''98%'', sc_sub = ''AI-assessed '' @ u_middot @ '' Stable''\<rparr>]
   \<and> count_class ''summary-card'' (html_lex hero_md) = 3"
  by (simp add: hero_md_def markup_eval)

text \<open>
  C1: As \<^verbatim>\<open>st.markdown\<close> renders it, the hero body loses its
  cards: after \<^verbatim>\<open>dedent\<close>, the summary row follows a blank line with four
  spaces of indentation, so CommonMark makes it an indented code block. No summary
  card reaches the page as HTML; all three are shown as literal markup text.
\<close>

theorem hero_cards_as_code:
  "summary_cards (rendered_html hero_md) = []
   \<and> count_class ''summary-card'' (rendered_html hero_md) = 0
   \<and> summary_cards (html_lex (unlines (rendered_code hero_md))) =
       [\<lparr>sc_label = ''Fish Count'', sc_value = ''12'', sc_sub = ''Tank A '' @ u_middot @ '' Live''\<rparr>,
        \<lparr>sc_label = ''Plant Status'', sc_value = ''Fresh'', sc_sub = ''Mint & leafy greens''\<rparr>,
        \<lparr>sc_label = ''System Health'', sc_value = ''98%'', sc_sub = ''AI-assessed '' @ u_middot @ '' Stable''\<rparr>]"
  by (simp add: rendered_html_def rendered_code_def hero_md_def st_markdown_blocks_unlines md_eval
                markup_eval)

text \<open>
  C10: The sensor markup declares five sensor cards, pH Level 7.39 pH,
  Turbidity 15 NTU, Humidity 71 %, Light Intensity 864 lux and Temperature 23.3 degrees C,
  each with the badge "Optimal".
\<close>

theorem sensors_source_cards:
  "sensor_cards (html_lex sensors_md) =
     [\<lparr>sn_badge = ''Optimal'', sn_title = ''pH Level'', sn_value = ''7.39'', sn_unit = ''pH''\<rparr>,
      \<lparr>sn_badge = ''Optimal'', sn_title = ''Turbidity'', sn_value = ''15'', sn_unit = ''NTU''\<rparr>,
      \<lparr>sn_badge = ''Optimal'', sn_title = ''Humidity'', sn_value = ''71'', sn_unit = ''%''\<rparr>,
      \<lparr>sn_badge = ''Optimal'', sn_title = ''Light Intensity'', sn_value = ''864'', sn_unit = ''lux''\<rparr>,
      \<lparr>sn_badge = ''Optimal'', sn_title = ''Temperature'', sn_value = ''23.3'', sn_unit = u_degree @ ''C''\<rparr>]
   \<and> count_class ''sensor-card'' (html_lex sensors_md) = 5"
  by (simp add: sensors_md_def markup_eval)

text \<open>
  C2: As rendered, the sensor grid, which follows a blank line at
  four spaces of indentation, is an indented code block too: none of the five sensor
  cards reaches the page as HTML.
\<close>

theorem sensors_cards_as_code:
  "sensor_cards (rendered_html sensors_md) = []
   \<and> count_class ''sensor-card'' (rendered_html sensors_md) = 0
   \<and> count_class ''sensor-card'' (html_lex (unlines (rendered_code sensors_md))) = 5"
  by (simp add: rendered_html_def rendered_code_def sensors_md_def st_markdown_blocks_unlines md_eval
                markup_eval)

text \<open>
  C3: Each panel header leaves its \<^verbatim>\<open><div class="panel">\<close> open
  at the end of its own \<^verbatim>\<open>st.markdown\<close> call, and the later call
  \<^verbatim>\<open>st.markdown("</div>")\<close> meant to close it is an end tag with no open element
  in its own fragment: the chart drawn between them is not inside the panel.
\<close>

theorem panel_div_left_open:
  "open_elems [] (html_lex fish_panel_tpl) = [''div'']
   \<and> open_elems [] (html_lex plant_panel_tpl) = [''div'']
   \<and> html_lex panel_close_md = [EndTag ''div'']
   \<and> open_elems [] (html_lex panel_close_md) = []"
  by (simp add: fish_panel_tpl_def fish_panel_lines_def plant_panel_tpl_def plant_panel_lines_def
                panel_close_md_def markup_eval)

text \<open>
  C11: The top bar and the formatted fish and plant panel headers,
  which have no blank line, each render as a single HTML block, with nothing shown as code.
\<close>

theorem headers_render_as_html:
  "(\<exists>ls. st_markdown_blocks top_bar_md = [HtmlBlock ls])
   \<and> (\<exists>s ls. fish_panel_md now = Inr s \<and> st_markdown_blocks s = [HtmlBlock ls])
   \<and> (\<exists>s ls. plant_panel_md now = Inr s \<and> st_markdown_blocks s = [HtmlBlock ls])"
  by (simp add: top_bar_md_def fish_panel_md_def plant_panel_md_def fish_panel_format
                plant_panel_format fish_panel_lines_def plant_panel_lines_def
                st_markdown_blocks_unlines md_eval)

text \<open>
  C19: \<^verbatim>\<open>str.format\<close> on each panel template, for any keyword arguments: it
  succeeds exactly when a \<^verbatim>\<open>time\<close> argument is given, putting its value after
  "Last checked: " and leaving every other line as written, and it raises
  \<^verbatim>\<open>KeyError('time')\<close> otherwise. No other field, brace or index error can occur.
\<close>

theorem panel_format_keys:
  "py_format fish_panel_tpl kw =
     (case map_of kw ''time'' of
        None \<Rightarrow> Inl (KeyError ''time'')
      | Some v \<Rightarrow> Inr (unlines (fish_panel_lines[15 := ''                Last checked: '' @ v])))
   \<and> py_format plant_panel_tpl kw =
     (case map_of kw ''time'' of
        None \<Rightarrow> Inl (KeyError ''time'')
      | Some v \<Rightarrow> Inr (unlines (plant_panel_lines[15 := ''                Last checked: '' @ v])))"
  by (cases "map_of kw ''time''") (simp_all add: panel_format_missing panel_format_given)

end
