(* ===== verification/Style.thy ===== *)
theory Style
  imports Markup
begin

text \<open>
  The stylesheet of \<^verbatim>\<open>src/dashboard.py\<close>: the body of the \<^verbatim>\<open>st.markdown\<close>
  call of lines 16--256, a \<^verbatim>\<open><style>\<close> element with one rule per class the
  page markup uses, plus \<^verbatim>\<open>.stApp\<close> for Streamlit's own app container. The
  body is copied line for line, its rules in eight groups in source order.
  \<open>css_selectors\<close> reads back the selector of every rule: in this stylesheet each
  rule opens on a line of its own that ends in \<^verbatim>\<open>{\<close>.
\<close>

section \<open>The stylesheet literal\<close>

text \<open>Lines 19--37: the app background and the top bar.\<close>

definition css_app_top_bar :: "string list" where
  \<open>css_app_top_bar =
     [''    /* Global background + font */''
     ,''    .stApp {''
     ,''        background: linear-gradient(135deg, #dff8ff 0%, #f6fff7 40%, #ffffff 100%);''
     ,''        font-family: system-ui, -apple-system, BlinkMacSystemFont, "Segoe UI", sans-serif;''
     ,''        color: #0f172a;''
     ,''    }''
     ,''''
     ,''    /* Top bar */''
     ,''    .top-bar {''
     ,''        background: linear-gradient(90deg, #7ee6ff, #4ade80);''
     ,''        border-radius: 24px;''
     ,''        padding: 18px 26px;''
     ,''        display: flex;''
     ,''        align-items: center;''
     ,''        justify-content: space-between;''
     ,''        box-shadow: 0 18px 30px rgba(15, 23, 42, 0.13);''
     ,''        margin-bottom: 28px;''
     ,''    }''
     ,'''']\<close>

text \<open>Lines 38--72: the brand block and the top-bar button row.\<close>

definition css_brand :: "string list" where
  \<open>css_brand =
     [''    .brand-left {''
     ,''        display: flex;''
     ,''        align-items: flex-start;''
     ,''        gap: 14px;''
     ,''    }''
     ,''''
     ,''    .brand-icon {''
     ,''        width: 40px;''
     ,''        height: 40px;''
     ,''        border-radius: 999px;''
     ,''        display: flex;''
     ,''        align-items: center;''
     ,''        justify-content: center;''
     ,''        background: #ecfeff;''
     ,''        font-size: 22px;''
     ,''    }''
     ,''''
     ,''    .brand-title {''
     ,''        font-weight: 800;''
     ,''        font-size: 20px;''
     ,''        letter-spacing: 0.04em;''
     ,''        text-transform: uppercase;''
     ,''        color: #065f46;''
     ,''    }''
     ,''''
     ,''    .brand-subtitle {''
     ,''        font-size: 13px;''
     ,''        color: #064e3b;''
     ,''    }''
     ,''''
     ,''    .top-buttons {''
     ,''        display: flex;''
     ,''        gap: 10px;''
     ,''    }''
     ,'''']\<close>

text \<open>Lines 73--101: the pill buttons and the panel wrapper.\<close>

definition css_pills_panel :: "string list" where
  \<open>css_pills_panel =
     [''    .pill-btn {''
     ,''        border: none;''
     ,''        border-radius: 999px;''
     ,''        padding: 8px 18px;''
     ,''        font-size: 13px;''
     ,''        font-weight: 600;''
     ,''        cursor: pointer;''
     ,''        box-shadow: 0 6px 18px rgba(15, 23, 42, 0.18);''
     ,''    }''
     ,''''
     ,''    .pill-primary {''
     ,''        background: linear-gradient(90deg, #22c55e, #14b8a6);''
     ,''        color: white;''
     ,''    }''
     ,''''
     ,''    .pill-secondary {''
     ,''        background: white;''
     ,''        color: #047857;''
     ,''    }''
     ,''''
     ,''    /* Section wrappers */''
     ,''    .panel {''
     ,''        background: rgba(255, 255, 255, 0.8);''
     ,''        border-radius: 28px;''
     ,''        padding: 28px 26px 22px;''
     ,''        box-shadow: 0 16px 40px rgba(15, 23, 42, 0.08);''
     ,''        margin-bottom: 26px;''
     ,''    }''
     ,'''']\<close>

text \<open>Lines 102--139: the summary row and summary cards.\<close>

definition css_summary :: "string list" where
  \<open>css_summary =
     [''    /* Summary metrics cards */''
     ,''    .summary-row {''
     ,''        display: flex;''
     ,''        flex-wrap: wrap;''
     ,''        gap: 16px;''
     ,''        margin-top: 18px;''
     ,''    }''
     ,''''
     ,''    .summary-card {''
     ,''        background: white;''
     ,''        border-radius: 18px;''
     ,''        padding: 16px 18px;''
     ,''        min-width: 180px;''
     ,''        box-shadow: 0 12px 26px rgba(15, 23, 42, 0.06);''
     ,''        display: flex;''
     ,''        flex-direction: column;''
     ,''        gap: 4px;''
     ,''    }''
     ,''''
     ,''    .summary-label {''
     ,''        font-size: 13px;''
     ,''        color: #64748b;''
     ,''        text-transform: uppercase;''
     ,''        letter-spacing: 0.08em;''
     ,''    }''
     ,''''
     ,''    .summary-value {''
     ,''        font-size: 26px;''
     ,''        font-weight: 800;''
     ,''        color: #0f172a;''
     ,''    }''
     ,''''
     ,''    .summary-sub {''
     ,''        font-size: 13px;''
     ,''        color: #0f766e;''
     ,''        font-weight: 600;''
     ,''    }''
     ,'''']\<close>

text \<open>Lines 140--170: the sensor grid, sensor card and badge.\<close>

definition css_sensor_card :: "string list" where
  \<open>css_sensor_card =
     [''    /* Sensor cards */''
     ,''    .sensor-grid {''
     ,''        display: grid;''
     ,''        grid-template-columns: repeat(auto-fit, minmax(230px, 1fr));''
     ,''        gap: 18px;''
     ,''        margin-top: 18px;''
     ,''    }''
     ,''''
     ,''    .sensor-card {''
     ,''        background: white;''
     ,''        border-radius: 20px;''
     ,''        padding: 18px 18px 14px;''
     ,''        box-shadow: 0 12px 28px rgba(15, 23, 42, 0.06);''
     ,''        position: relative;''
     ,''        overflow: hidden;''
     ,''    }''
     ,''''
     ,''    .sensor-badge {''
     ,''        position: absolute;''
     ,''        right: 14px;''
     ,''        top: 14px;''
     ,''        background: #dcfce7;''
     ,''        color: #16a34a;''
     ,''        font-size: 11px;''
     ,''        font-weight: 700;''
     ,''        border-radius: 999px;''
     ,''        padding: 4px 10px;''
     ,''        text-transform: uppercase;''
     ,''        letter-spacing: 0.08em;''
     ,''    }''
     ,'''']\<close>

text \<open>Lines 171--195: the sensor title, value, unit and bar.\<close>

definition css_sensor_parts :: "string list" where
  \<open>css_sensor_parts =
     [''    .sensor-title {''
     ,''        font-size: 13px;''
     ,''        color: #64748b;''
     ,''        margin-bottom: 4px;''
     ,''    }''
     ,''''
     ,''    .sensor-value {''
     ,''        font-size: 28px;''
     ,''        font-weight: 800;''
     ,''        color: #0f172a;''
     ,''    }''
     ,''''
     ,''    .sensor-unit {''
     ,''        font-size: 13px;''
     ,''        color: #94a3b8;''
     ,''        margin-left: 4px;''
     ,''    }''
     ,''''
     ,''    .sensor-bar {''
     ,''        margin-top: 12px;''
     ,''        height: 7px;''
     ,''        border-radius: 999px;''
     ,''        background: linear-gradient(90deg, #22c55e, #0ea5e9, #818cf8);''
     ,''    }''
     ,'''']\<close>

text \<open>Lines 196--227: the health panel header, title, tag and button row.\<close>

definition css_health :: "string list" where
  \<open>css_health =
     [''    /* Health panels */''
     ,''    .health-header {''
     ,''        display: flex;''
     ,''        align-items: baseline;''
     ,''        justify-content: space-between;''
     ,''        margin-bottom: 6px;''
     ,''    }''
     ,''''
     ,''    .health-title {''
     ,''        font-size: 20px;''
     ,''        font-weight: 800;''
     ,''        color: #0f172a;''
     ,''    }''
     ,''''
     ,''    .health-sub {''
     ,''        font-size: 13px;''
     ,''        color: #64748b;''
     ,''    }''
     ,''''
     ,''    .tag-healthy {''
     ,''        font-size: 13px;''
     ,''        color: #0f766e;''
     ,''        font-weight: 700;''
     ,''    }''
     ,''''
     ,''    .soft-btn-row {''
     ,''        display: flex;''
     ,''        gap: 10px;''
     ,''        margin-top: 10px;''
     ,''        margin-bottom: 14px;''
     ,''    }''
     ,'''']\<close>

text \<open>Lines 228--252: the soft buttons and the "Last checked" line.\<close>

definition css_soft_btn :: "string list" where
  \<open>css_soft_btn =
     [''    .soft-btn {''
     ,''        border-radius: 999px;''
     ,''        padding: 6px 16px;''
     ,''        border: none;''
     ,''        font-size: 13px;''
     ,''        font-weight: 600;''
     ,''        cursor: pointer;''
     ,''        box-shadow: 0 6px 18px rgba(15, 23, 42, 0.08);''
     ,''    }''
     ,''''
     ,''    .soft-btn-primary {''
     ,''        background: linear-gradient(90deg, #22c55e, #06b6d4);''
     ,''        color: white;''
     ,''    }''
     ,''''
     ,''    .soft-btn-outline {''
     ,''        background: white;''
     ,''        color: #0f172a;''
     ,''    }''
     ,''''
     ,''    .health-time {''
     ,''        font-size: 11px;''
     ,''        color: #94a3b8;''
     ,''        margin-bottom: 10px;''
     ,''    }'']\<close>

definition style_rules :: "string list" where
  "style_rules = css_app_top_bar @ css_brand @ css_pills_panel @ css_summary @ css_sensor_card
                 @ css_sensor_parts @ css_health @ css_soft_btn"

text \<open>
  The whole body: the empty line after the opening quotes, the opening tag (line 18),
  the rules, the closing tag (line 253) and the indentation before the closing quotes.
\<close>

definition style_md :: string where
  "style_md = unlines ('''' # ''    <style>'' # style_rules @ [''    </style>'', ''    ''])"

lemmas style_groups = css_app_top_bar_def css_brand_def css_pills_panel_def css_summary_def
  css_sensor_card_def css_sensor_parts_def css_health_def css_soft_btn_def

declare style_groups [source_literals] style_rules_def [source_literals] style_md_def [source_literals]

section \<open>Reading the rules\<close>

text \<open>The selector of a line that opens a rule: the text before its \<^verbatim>\<open>{\<close>.\<close>

definition css_selector :: "string \<Rightarrow> string option" where
  "css_selector l =
     (if py_strip l \<noteq> [] \<and> last (py_strip l) = CHR ''{''
      then Some (rstrip (butlast (py_strip l))) else None)"

definition css_selectors :: "string list \<Rightarrow> string list" where
  "css_selectors ls = List.map_filter css_selector ls"

text \<open>The classes that have a rule: the selectors \<^verbatim>\<open>.name\<close>.\<close>

definition css_classes :: "string list \<Rightarrow> string list" where
  "css_classes ss = map (drop 1) (filter (\<lambda>s. take 1 s = ''.'') ss)"

text \<open>The classes a markup body puts on its elements, in document order.\<close>

definition markup_classes :: "string \<Rightarrow> string list" where
  "markup_classes md = concat (map fst (tag_texts (html_lex md)))"

text \<open>
  The five markup bodies of the page that carry classes (the two panel templates
  before formatting, which only fills in text).
\<close>

definition page_markup :: "string list" where
  "page_markup = [top_bar_md, hero_md, sensors_md, fish_panel_tpl, plant_panel_tpl]"

section \<open>Lemmas\<close>

lemma map_filter_append: "List.map_filter f (xs @ ys) = List.map_filter f xs @ List.map_filter f ys"
  by (induction xs) (simp_all add: List.map_filter_simps split: option.splits)

text \<open>Dedent removes the four-space margin; strip removes the first and last lines.\<close>

lemma style_clean:
  "clean_lines ('''' # ''    <style>'' # style_rules @ [''    </style>'', ''    '']) =
     ''<style>'' # map (\<lambda>l. if tw_blank l then [] else drop 4 l) style_rules @ [''</style>'']"
proof -
  have "list_all (\<lambda>l. tw_blank l \<or> take 4 (tw_indent l) = ''    '') style_rules"
    unfolding style_rules_def list_all_append
    by (simp add: style_groups tw_blank_def tw_indent_def tw_ws_def)
  then show ?thesis
    by (subst clean_lines_frame) (simp_all add: tw_blank_def tw_indent_def tw_ws_def lstrip_def rstrip_def
                                                eval_nat_numeral)
qed

lemma style_html_block:
  "html_block_lines 1 (''<style>'' # map (\<lambda>l. if tw_blank l then [] else drop 4 l) style_rules @ [''</style>''])"
proof -
  have "list_all (\<lambda>l. \<not> html_end 1 l) (map (\<lambda>l. if tw_blank l then [] else drop 4 l) style_rules)"
    unfolding style_rules_def map_append list_all_append
    by (simp add: style_groups html_end_quick tw_blank_def tw_ws_def)
  then show ?thesis
    by (simp add: html_block_lines_def html_start_def md_indent_def tag_then_def html1_tags_def
                  html_end_quick del: html_end_def)
qed

lemma set_eq_by_members:
  "list_all (\<lambda>c. c \<in> set ys) xs \<Longrightarrow> list_all (\<lambda>c. c \<in> set xs) ys \<Longrightarrow> set xs = set ys"
  by (auto simp: list_all_iff)

lemma style_nl_free:
  "list_all nl_free ('''' # ''    <style>'' # style_rules @ [''    </style>'', ''    ''])"
  unfolding style_rules_def list_all_append by (simp add: style_groups)

lemma style_rendered:
  "st_markdown_blocks style_md =
     [HtmlBlock (''<style>'' # map (\<lambda>l. if tw_blank l then [] else drop 4 l) style_rules @ [''</style>''])]"
proof -
  have "st_markdown_blocks style_md =
          md_go NoBlock (clean_lines ('''' # ''    <style>'' # style_rules @ [''    </style>'', ''    '']))"
    using style_nl_free unfolding style_md_def by (intro st_markdown_blocks_unlines) simp_all
  also have "\<dots> = md_go NoBlock
      (''<style>'' # map (\<lambda>l. if tw_blank l then [] else drop 4 l) style_rules @ [''</style>''])"
    by (simp only: style_clean)
  also have "\<dots> = [HtmlBlock
      (''<style>'' # map (\<lambda>l. if tw_blank l then [] else drop 4 l) style_rules @ [''</style>''])]"
    by (rule md_go_html_block [OF _ style_html_block]) simp
  finally show ?thesis .
qed

lemma style_selectors:
  "css_selectors (''<style>'' # map (\<lambda>l. if tw_blank l then [] else drop 4 l) style_rules @ [''</style>'']) =
     [''.stApp'', ''.top-bar'', ''.brand-left'', ''.brand-icon'', ''.brand-title'', ''.brand-subtitle'',
      ''.top-buttons'', ''.pill-btn'', ''.pill-primary'', ''.pill-secondary'', ''.panel'',
      ''.summary-row'', ''.summary-card'', ''.summary-label'', ''.summary-value'', ''.summary-sub'',
      ''.sensor-grid'', ''.sensor-card'', ''.sensor-badge'', ''.sensor-title'', ''.sensor-value'',
      ''.sensor-unit'', ''.sensor-bar'', ''.health-header'', ''.health-title'', ''.health-sub'',
      ''.tag-healthy'', ''.soft-btn-row'', ''.soft-btn'', ''.soft-btn-primary'', ''.soft-btn-outline'',
      ''.health-time'']"
  unfolding css_selectors_def style_rules_def map_append map_filter_append List.map_filter_simps
  by (simp add: style_groups css_selector_def py_strip_def lstrip_def rstrip_def tw_blank_def tw_ws_def)

section \<open>Properties\<close>

text \<open>
  C13: Unlike the hero and sensor bodies, the stylesheet reaches the page whole: it opens
  an HTML block of start condition 1 (\<^verbatim>\<open><style>\<close>), which only its closing tag ends,
  so its blank lines stay inside and none of its rule lines becomes code. The block
  holds every rule line with the four-space margin removed.
\<close>

theorem style_one_html_block:
  "st_markdown_blocks style_md =
     [HtmlBlock (''<style>'' # map (\<lambda>l. if tw_blank l then [] else drop 4 l) style_rules @ [''</style>''])]
   \<and> code_lines (st_markdown_blocks style_md) = []
   \<and> [] \<in> set (map (\<lambda>l. if tw_blank l then [] else drop 4 l) style_rules)"
proof -
  have "[] \<in> set (map (\<lambda>l. if tw_blank l then [] else drop 4 l) css_app_top_bar)"
    by (simp add: css_app_top_bar_def tw_blank_def tw_ws_def)
  then show ?thesis by (simp add: style_rendered style_rules_def)
qed

text \<open>
  C14: Every class the page markup puts on an element has a rule in the stylesheet as
  the page receives it, and every rule but \<^verbatim>\<open>.stApp\<close> (which styles Streamlit's own
  container) is for a class the markup uses.
\<close>

theorem style_covers_markup:
  "set (css_classes (css_selectors (html_lines (st_markdown_blocks style_md))))
     = insert ''stApp'' (set (concat (map markup_classes page_markup)))"
proof -
  let ?css = "css_classes (css_selectors (html_lines (st_markdown_blocks style_md)))"
  let ?mk = "''stApp'' # concat (map markup_classes page_markup)"
  have c: "?css = map (drop 1) (filter (\<lambda>s. take 1 s = ''.'') (css_selectors
             (''<style>'' # map (\<lambda>l. if tw_blank l then [] else drop 4 l) style_rules @ [''</style>''])))"
    by (simp add: style_rendered css_classes_def)
  have "list_all (\<lambda>c. c \<in> set ?css) ?mk" "list_all (\<lambda>c. c \<in> set ?mk) ?css"
    unfolding c style_selectors
    by (simp_all add: page_markup_def markup_classes_def top_bar_md_def hero_md_def sensors_md_def
                      fish_panel_tpl_def fish_panel_lines_def plant_panel_tpl_def plant_panel_lines_def
                      markup_eval)
  then have "set ?css = set ?mk" by (rule set_eq_by_members [rotated])
  then show ?thesis by simp
qed

end
