(* ===== verification/Frame.thy ===== *)
theory Frame
  imports Clock
begin

text \<open>
  The chart data of \<^verbatim>\<open>src/dashboard.py\<close> (lines 264--268, 427, 455): two
  score lists, a pandas \<^verbatim>\<open>DataFrame\<close> built from a dict of equal-length
  columns and re-indexed by its \<^verbatim>\<open>"Time"\<close> column, and
  \<^verbatim>\<open>st.line_chart(df, height=220)\<close>, which plots every remaining column
  against the index. A frame is a record of its index and its columns (in
  the dict's insertion order); the cells are time stamps or integers, the two
  kinds the script stores. \<^verbatim>\<open>DataFrame\<close> raises \<^verbatim>\<open>ValueError\<close> on columns
  of different lengths, \<^verbatim>\<open>set_index\<close> raises \<^verbatim>\<open>KeyError\<close> on a missing
  column; both are branches of the model.
\<close>

section \<open>Frames\<close>

datatype cell = TimeCell datetime | IntCell int

record frame =
  frame_index :: "cell list"
  frame_columns :: "(string \<times> cell list) list"

text \<open>The default \<^verbatim>\<open>RangeIndex\<close> \<^verbatim>\<open>0 .. n-1\<close>.\<close>

definition range_index :: "nat \<Rightarrow> cell list" where
  "range_index n = map (\<lambda>i. IntCell (int i)) [0..<n]"

text \<open>\<^verbatim>\<open>pd.DataFrame({k1: c1, k2: c2, ...})\<close>.\<close>

definition DataFrame :: "(string \<times> cell list) list \<Rightarrow> frame py_result" where
  "DataFrame d =
     (case d of
        [] \<Rightarrow> Inr \<lparr>frame_index = [], frame_columns = []\<rparr>
      | (_, c) # _ \<Rightarrow>
          (if list_all (\<lambda>(_, c'). length c' = length c) d
           then Inr \<lparr>frame_index = range_index (length c), frame_columns = d\<rparr>
           else Inl (ValueError ''All arrays must be of the same length'')))"

text \<open>\<^verbatim>\<open>df.set_index(k)\<close>: the column becomes the index and leaves the columns.\<close>

definition set_index :: "frame \<Rightarrow> string \<Rightarrow> frame py_result" where
  "set_index f k =
     (case map_of (frame_columns f) k of
        None \<Rightarrow> Inl (KeyError k)
      | Some c \<Rightarrow> Inr \<lparr>frame_index = c, frame_columns = filter (\<lambda>(k', _). k' \<noteq> k) (frame_columns f)\<rparr>)"

section \<open>Charts\<close>

text \<open>
  \<^verbatim>\<open>st.line_chart(df, height=h)\<close>: one series per column, its points the
  pairs (index value, cell) in row order.
\<close>

record chart =
  chart_series :: "(string \<times> (cell \<times> cell) list) list"
  chart_height :: nat

definition line_chart :: "frame \<Rightarrow> nat \<Rightarrow> chart" where
  "line_chart f h =
     \<lparr>chart_series = map (\<lambda>(k, c). (k, zip (frame_index f) c)) (frame_columns f),
      chart_height = h\<rparr>"

section \<open>The script's health data (lines 264--268)\<close>

definition fish_scores :: "int list" where
  "fish_scores = [94, 96, 95, 96, 97, 98]"

definition plant_scores :: "int list" where
  "plant_scores = [92, 93, 94, 93, 95, 96]"

declare fish_scores_def [source_literals] plant_scores_def [source_literals]

text \<open>
  \<^verbatim>\<open>pd.DataFrame({"Time": time_points, "Health": scores}).set_index("Time")\<close>.
\<close>

definition health_frame :: "datetime list \<Rightarrow> int list \<Rightarrow> frame py_result" where
  "health_frame ts scores =
     (case DataFrame [(''Time'', map TimeCell ts), (''Health'', map IntCell scores)] of
        Inl e \<Rightarrow> Inl e
      | Inr df \<Rightarrow> set_index df ''Time'')"

definition fish_df :: "datetime list \<Rightarrow> frame py_result" where
  "fish_df ts = health_frame ts fish_scores"

definition plant_df :: "datetime list \<Rightarrow> frame py_result" where
  "plant_df ts = health_frame ts plant_scores"

text \<open>\<^verbatim>\<open>st.line_chart(fish_df, height=220)\<close> and its plant twin (lines 427, 455).\<close>

definition fish_chart :: "datetime list \<Rightarrow> chart py_result" where
  "fish_chart ts = (case fish_df ts of Inl e \<Rightarrow> Inl e | Inr f \<Rightarrow> Inr (line_chart f 220))"

definition plant_chart :: "datetime list \<Rightarrow> chart py_result" where
  "plant_chart ts = (case plant_df ts of Inl e \<Rightarrow> Inl e | Inr f \<Rightarrow> Inr (line_chart f 220))"

section \<open>Lemmas\<close>

lemma length_range_index [simp]: "length (range_index n) = n"
  by (simp add: range_index_def)

lemma health_frame_ok:
  "length ts = length scores \<Longrightarrow>
   health_frame ts scores =
     Inr \<lparr>frame_index = map TimeCell ts, frame_columns = [(''Health'', map IntCell scores)]\<rparr>"
  by (simp add: health_frame_def DataFrame_def set_index_def)

section \<open>Properties\<close>

text \<open>
  C8: With the time stamps of line 262, the fish chart of line 427 is
  built without error and has a single series, "Health", pairing each time stamp
  with its score in order.
\<close>

theorem fish_chart_ok:
  assumes "time_points now = Inr ts"
  shows "fish_chart ts =
           Inr \<lparr>chart_series = [(''Health'', zip (map TimeCell ts) (map IntCell fish_scores))],
                chart_height = 220\<rparr>"
proof -
  from assms have "ts = map (\<lambda>h. now - h * us_per_hour) hour_offsets"
    by (rule time_points_Inr_map)
  then have "length ts = length fish_scores"
    by (simp add: hour_offsets_def fish_scores_def)
  then show ?thesis
    by (simp add: fish_chart_def fish_df_def health_frame_ok line_chart_def)
qed

end
