(* ===== verification/Page.thy ===== *)
theory Page
  imports Style Frame
begin

text \<open>
  The script as a run of Streamlit calls. \<^verbatim>\<open>src/dashboard.py\<close> is executed from top
  to bottom; every \<^verbatim>\<open>st.*\<close> call appends an element to the page, in the main area
  or, inside a \<^verbatim>\<open>with col:\<close> block, in a column. The page is a record of its
  configuration and the log of its elements, each with the container it went to; the
  calls are a datatype with a step function \<open>exec_call\<close>. Between the calls the
  script computes its data, and an exception there ends the run with the page as far
  as it got. The run is written in a state-and-exception monad (\<open>sc_bind\<close>): one
  bind per statement of the script, in the order of the source.
\<close>

section \<open>Pages, containers and calls\<close>

text \<open>
  The main area, or column \<open>i\<close> of the \<^verbatim>\<open>st.columns\<close> element at position \<open>k\<close> of
  the main area.
\<close>

datatype container = Main | Column nat nat

datatype st_elem = MdElem string | ChartElem chart | ColumnsElem nat

record page =
  page_config :: "(string \<times> string) option"
  page_log :: "(container \<times> st_elem) list"

definition empty_page :: page where
  "empty_page = \<lparr>page_config = None, page_log = []\<rparr>"

definition main_elems :: "page \<Rightarrow> st_elem list" where
  "main_elems p = map snd (filter (\<lambda>(c, _). c = Main) (page_log p))"

text \<open>The Streamlit calls the script makes.\<close>

datatype st_call =
    SetPageConfig string string
  | Markdown container string
  | Columns nat
  | LineChart container chart

text \<open>
  \<^verbatim>\<open>st.set_page_config\<close> must be the first Streamlit call of a run and may be made
  once, the rule of the Streamlit releases that enforce it (later releases relax it;
  the script makes the call first either way); \<^verbatim>\<open>st.columns(n)\<close> needs
  \<open>0 < n\<close>. Both raise \<^verbatim>\<open>StreamlitAPIException\<close> otherwise. The other calls
  append their element.
\<close>

fun exec_call :: "page \<Rightarrow> st_call \<Rightarrow> page py_result" where
  "exec_call p (SetPageConfig t l) =
     (if page_config p = None \<and> page_log p = [] then Inr (p\<lparr>page_config := Some (t, l)\<rparr>)
      else Inl (StreamlitAPIException
        ''set_page_config() can only be called once per app page, and must be called as the first Streamlit command in your script.''))"
| "exec_call p (Markdown c b) = Inr (p\<lparr>page_log := page_log p @ [(c, MdElem b)]\<rparr>)"
| "exec_call p (Columns n) =
     (if n = 0 then Inl (StreamlitAPIException
        ''The input argument to st.columns must be either a positive integer or a list of positive numeric weights.'')
      else Inr (p\<lparr>page_log := page_log p @ [(Main, ColumnsElem n)]\<rparr>))"
| "exec_call p (LineChart c ch) = Inr (p\<lparr>page_log := page_log p @ [(c, ChartElem ch)]\<rparr>)"

text \<open>A sequence of calls, stopping at the first exception.\<close>

fun exec_calls :: "page \<Rightarrow> st_call list \<Rightarrow> py_error option \<times> page" where
  "exec_calls p [] = (None, p)"
| "exec_calls p (c # cs) = (case exec_call p c of Inl e \<Rightarrow> (Some e, p) | Inr p' \<Rightarrow> exec_calls p' cs)"

section \<open>The script monad\<close>

type_synonym 'a script = "page \<Rightarrow> 'a py_result \<times> page"

definition sc_return :: "'a \<Rightarrow> 'a script" where
  "sc_return x = (\<lambda>p. (Inr x, p))"

definition sc_bind :: "'a script \<Rightarrow> ('a \<Rightarrow> 'b script) \<Rightarrow> 'b script" where
  "sc_bind m f = (\<lambda>p. case m p of (Inl e, p') \<Rightarrow> (Inl e, p') | (Inr x, p') \<Rightarrow> f x p')"

text \<open>A computation of the script that touches no Streamlit state.\<close>

definition sc_lift :: "'a py_result \<Rightarrow> 'a script" where
  "sc_lift r = (\<lambda>p. (r, p))"

definition st_run :: "st_call \<Rightarrow> unit script" where
  "st_run c = (\<lambda>p. case exec_call p c of Inl e \<Rightarrow> (Inl e, p) | Inr p' \<Rightarrow> (Inr (), p'))"

text \<open>\<^verbatim>\<open>st.columns(n)\<close> returns the containers of the new columns.\<close>

definition st_columns :: "nat \<Rightarrow> container list script" where
  "st_columns n =
     (\<lambda>p. case exec_call p (Columns n) of
            Inl e \<Rightarrow> (Inl e, p)
          | Inr p' \<Rightarrow> (Inr (map (Column (length (main_elems p))) [0..<n]), p'))"

text \<open>Python's unpacking \<^verbatim>\<open>a, b = xs\<close>.\<close>

definition unpack2 :: "'a list \<Rightarrow> ('a \<times> 'a) py_result" where
  "unpack2 xs =
     (case xs of
        [a, b] \<Rightarrow> Inr (a, b)
      | _ \<Rightarrow> Inl (ValueError (if length xs < 2 then ''not enough values to unpack (expected 2)''
                            else ''too many values to unpack (expected 2)'')))"

section \<open>The dashboard script\<close>

definition page_title :: string where
  "page_title = ''Aquaponics '' @ u_emdash @ '' Preview''"

declare page_title_def [source_literals]

text \<open>
  One panel column, lines 402--428 (and 430--456): the formatted header, the chart of
  the frame, and the closing \<^verbatim>\<open>st.markdown("</div>")\<close>.
\<close>

definition health_column :: "container \<Rightarrow> string py_result \<Rightarrow> frame \<Rightarrow> unit script" where
  "health_column col header df =
     sc_bind (sc_lift header) (\<lambda>h.
     sc_bind (st_run (Markdown col h)) (\<lambda>_.
     sc_bind (st_run (LineChart col (line_chart df 220))) (\<lambda>_.
     st_run (Markdown col panel_close_md))))"

definition dashboard :: "datetime \<Rightarrow> unit script" where
  "dashboard now =
     sc_bind (st_run (SetPageConfig page_title ''wide'')) (\<lambda>_.
     sc_bind (st_run (Markdown Main style_md)) (\<lambda>_.
     sc_bind (sc_lift (time_points now)) (\<lambda>ts.
     sc_bind (sc_lift (fish_df ts)) (\<lambda>fish.
     sc_bind (sc_lift (plant_df ts)) (\<lambda>plant.
     sc_bind (st_run (Markdown Main top_bar_md)) (\<lambda>_.
     sc_bind (st_run (Markdown Main hero_md)) (\<lambda>_.
     sc_bind (st_run (Markdown Main sensors_md)) (\<lambda>_.
     sc_bind (st_columns 2) (\<lambda>cols.
     sc_bind (sc_lift (unpack2 cols)) (\<lambda>(col_fish, col_plant).
     sc_bind (health_column col_fish (fish_panel_md now) fish) (\<lambda>_.
     health_column col_plant (plant_panel_md now) plant)))))))))))"

text \<open>The calls of a run that gets to the end, in order.\<close>

definition dashboard_calls :: "string \<Rightarrow> string \<Rightarrow> frame \<Rightarrow> frame \<Rightarrow> st_call list" where
  "dashboard_calls fh ph fish plant =
     [SetPageConfig page_title ''wide'', Markdown Main style_md, Markdown Main top_bar_md,
      Markdown Main hero_md, Markdown Main sensors_md, Columns 2,
      Markdown (Column 4 0) fh, LineChart (Column 4 0) (line_chart fish 220),
      Markdown (Column 4 0) panel_close_md,
      Markdown (Column 4 1) ph, LineChart (Column 4 1) (line_chart plant 220),
      Markdown (Column 4 1) panel_close_md]"

text \<open>The frame \<^verbatim>\<open>pd.DataFrame(...).set_index("Time")\<close> builds from six stamps.\<close>

definition score_frame :: "datetime list \<Rightarrow> int list \<Rightarrow> frame" where
  "score_frame ts scores =
     \<lparr>frame_index = map TimeCell ts, frame_columns = [(''Health'', map IntCell scores)]\<rparr>"

section \<open>Lemmas\<close>

lemma sc_bind_apply:
  "sc_bind m f p = (case m p of (Inl e, p') \<Rightarrow> (Inl e, p') | (Inr x, p') \<Rightarrow> f x p')"
  by (simp add: sc_bind_def)

lemma sc_bind_lift [simp]:
  "sc_bind (sc_lift (Inr x)) f = f x" "sc_bind (sc_lift (Inl e)) f = (\<lambda>p. (Inl e, p))"
  by (simp_all add: sc_bind_def sc_lift_def fun_eq_iff)

lemma sc_bind_run [simp]:
  "sc_bind (st_run c) f p = (case exec_call p c of Inl e \<Rightarrow> (Inl e, p) | Inr p' \<Rightarrow> f () p')"
  "st_run c p = (case exec_call p c of Inl e \<Rightarrow> (Inl e, p) | Inr p' \<Rightarrow> (Inr (), p'))"
  by (simp_all add: sc_bind_def st_run_def split: sum.splits)

lemma sc_bind_columns [simp]:
  "sc_bind (st_columns n) f p =
     (case exec_call p (Columns n) of
        Inl e \<Rightarrow> (Inl e, p) | Inr p' \<Rightarrow> f (map (Column (length (main_elems p))) [0..<n]) p')"
  by (simp add: sc_bind_def st_columns_def split: sum.splits)

lemma upt_two [simp]: "[0..<2] = [0, 1 :: nat]"
  by (simp add: upt_rec)

lemma unpack2_two [simp]: "unpack2 [a, b] = Inr (a, b)"
  by (simp add: unpack2_def)

lemma main_elems_append [simp]:
  "main_elems (p\<lparr>page_log := page_log p @ [(c, e)]\<rparr>) = main_elems p @ (if c = Main then [e] else [])"
  by (simp add: main_elems_def)

lemma main_elems_config [simp]: "main_elems (p\<lparr>page_config := x\<rparr>) = main_elems p"
  by (simp add: main_elems_def)

lemma length_time_points: "time_points now = Inr ts \<Longrightarrow> length ts = 6"
  by (drule time_points_Inr_map) (simp add: hour_offsets_def)

lemma score_frames:
  "length ts = 6 \<Longrightarrow> fish_df ts = Inr (score_frame ts fish_scores) \<and> plant_df ts = Inr (score_frame ts plant_scores)"
  by (simp add: fish_df_def plant_df_def health_frame_ok score_frame_def fish_scores_def plant_scores_def)

lemma health_column_run:
  "health_column col (Inr h) df p =
           (Inr (), p\<lparr>page_log := page_log p @
              [(col, MdElem h), (col, ChartElem (line_chart df 220)), (col, MdElem panel_close_md)]\<rparr>)"
  by (simp add: health_column_def)

lemma dashboard_ok:
  assumes "time_points now = Inr ts"
  shows "exec_calls empty_page
           (dashboard_calls (projr (fish_panel_md now)) (projr (plant_panel_md now))
              (score_frame ts fish_scores) (score_frame ts plant_scores))
         = (None, snd (dashboard now empty_page))
         \<and> fst (dashboard now empty_page) = Inr ()"
proof -
  have "length ts = 6" using assms by (rule length_time_points)
  then show ?thesis
    using assms score_frames [of ts]
    by (simp add: dashboard_def dashboard_calls_def empty_page_def main_elems_def health_column_run
                  sc_bind_apply st_columns_def sc_lift_def
                  fish_panel_md_def plant_panel_md_def fish_panel_format plant_panel_format)
qed

lemma dashboard_page_eq:
  assumes "time_points now = Inr ts"
  shows "snd (dashboard now empty_page) =
           snd (exec_calls empty_page
             (dashboard_calls (projr (fish_panel_md now)) (projr (plant_panel_md now))
                (score_frame ts fish_scores) (score_frame ts plant_scores)))"
  using dashboard_ok [OF assms] by simp

section \<open>Properties\<close>

text \<open>
  C15: When the time stamps of line 262 are built, the script runs to its end without an
  exception. Its effect is exactly the Streamlit call sequence \<open>dashboard_calls\<close>:
  page configuration, stylesheet, top bar, hero, sensors, two columns, and in each
  column the formatted header, the chart of its frame and the closing
  \<^verbatim>\<open></div>\<close>. The page is configured with the title and the wide layout, and the
  main area holds the four markup bodies and the columns element, in this order.
\<close>

theorem dashboard_calls_run:
  assumes "time_points now = Inr ts"
  shows "exec_calls empty_page
           (dashboard_calls (projr (fish_panel_md now)) (projr (plant_panel_md now))
              (score_frame ts fish_scores) (score_frame ts plant_scores))
         = (None, snd (dashboard now empty_page))
         \<and> fst (dashboard now empty_page) = Inr ()
         \<and> page_config (snd (dashboard now empty_page)) = Some (page_title, ''wide'')
         \<and> main_elems (snd (dashboard now empty_page)) =
             [MdElem style_md, MdElem top_bar_md, MdElem hero_md, MdElem sensors_md, ColumnsElem 2]"
proof -
  have "length ts = 6" using assms by (rule length_time_points)
  then show ?thesis
    using dashboard_ok [OF assms] unfolding dashboard_page_eq [OF assms]
    by (simp add: dashboard_calls_def empty_page_def main_elems_def)
qed

text \<open>
  C16: When line 262 raises, the run stops there. The page has its configuration and the
  stylesheet, and nothing else: no top bar, no cards, no chart.
\<close>

theorem dashboard_stops_at_time_points:
  "time_points now = Inl e \<Longrightarrow>
   dashboard now empty_page =
     (Inl e, \<lparr>page_config = Some (page_title, ''wide''), page_log = [(Main, MdElem style_md)]\<rparr>)"
  by (simp add: dashboard_def empty_page_def sc_bind_apply sc_lift_def)


end
