(* ===== verification/View.thy ===== *)
theory View
  imports Page
begin

text \<open>
  The contract of \<^verbatim>\<open>spec.md\<close> (sections 3, 4.2 and 8) and how the rendered page
  fails it. The spec's \<^verbatim>\<open>SystemSnapshot\<close> holds the scalar metrics, the sensor
  readings and the two health series; its View Renderer maps a snapshot to summary
  cards (label and value), sensor cards (name, formatted value, unit, status badge)
  and two charts. \<open>widget_view\<close> reads the same widgets off the page the script
  builds: the cards of its main-area markup (a \<^verbatim>\<open><style>\<close> body shows no
  widget) and the points of its charts, for a given HTML reader; \<open>rendered_view\<close>
  reads what \<^verbatim>\<open>st.markdown\<close> shows of the bodies as HTML.
\<close>

section \<open>The specification\<close>

datatype status = Optimal | Warning | Critical

record sensor_reading =
  rd_name :: string
  rd_value :: "nat \<times> nat"
  rd_unit :: string
  rd_status :: status

record snapshot =
  snap_time :: datetime
  fish_count :: nat
  plant_status :: string
  health_pct :: nat
  snap_sensors :: "sensor_reading list"
  fish_series :: "(datetime \<times> int) list"
  plant_series :: "(datetime \<times> int) list"

record view =
  v_summary :: "(string \<times> string) list"
  v_sensors :: "(string \<times> string \<times> string \<times> string) list"
  v_charts :: "(datetime \<times> int) list list"

function show_nat :: "nat \<Rightarrow> string" where
  "show_nat n = (if n < 10 then [digit_char n] else show_nat (n div 10) @ [digit_char (n mod 10)])"
  by pat_completeness auto
termination
  by (relation "measure id") auto

declare show_nat.simps [simp del]

text \<open>
  A number with a fixed number of decimal places, \<open>(m, d)\<close> standing for
  \<open>m / 10^d\<close>: \<open>(739, 2)\<close> is \<^verbatim>\<open>7.39\<close>.
\<close>

definition format_fixed :: "nat \<times> nat \<Rightarrow> string" where
  "format_fixed v =
     (case v of (m, d) \<Rightarrow>
        let s = replicate (Suc d - length (show_nat m)) (CHR ''0'') @ show_nat m in
        if d = 0 then s else take (length s - d) s @ ''.'' @ drop (length s - d) s)"

fun status_label :: "status \<Rightarrow> string" where
  "status_label Optimal = ''Optimal''"
| "status_label Warning = ''Warning''"
| "status_label Critical = ''Critical''"

definition spec_view :: "snapshot \<Rightarrow> view" where
  "spec_view s =
     \<lparr>v_summary = [(''Fish Count'', show_nat (fish_count s)), (''Plant Status'', plant_status s),
                   (''System Health'', show_nat (health_pct s) @ ''%'')],
      v_sensors = map (\<lambda>r. (rd_name r, format_fixed (rd_value r), rd_unit r, status_label (rd_status r)))
                    (snap_sensors s),
      v_charts = [fish_series s, plant_series s]\<rparr>"

text \<open>
  The reference snapshot over the six time stamps. Section 8 of the spec fixes Fish
  Count 12, Plant Status Fresh, System Health 98% and the pH reading 7.39 pH; for the
  other four readings it gives only the names, and for the series only their shape,
  so those values are the ones the script displays.
\<close>

definition reference_snapshot :: "datetime list \<Rightarrow> snapshot" where
  "reference_snapshot ts =
     \<lparr>snap_time = last ts, fish_count = 12, plant_status = ''Fresh'', health_pct = 98,
      snap_sensors =
        [\<lparr>rd_name = ''pH Level'', rd_value = (739, 2), rd_unit = ''pH'', rd_status = Optimal\<rparr>,
         \<lparr>rd_name = ''Turbidity'', rd_value = (15, 0), rd_unit = ''NTU'', rd_status = Optimal\<rparr>,
         \<lparr>rd_name = ''Humidity'', rd_value = (71, 0), rd_unit = ''%'', rd_status = Optimal\<rparr>,
         \<lparr>rd_name = ''Light Intensity'', rd_value = (864, 0), rd_unit = ''lux'', rd_status = Optimal\<rparr>,
         \<lparr>rd_name = ''Temperature'', rd_value = (233, 1), rd_unit = u_degree @ ''C'', rd_status = Optimal\<rparr>],
      fish_series = zip ts fish_scores, plant_series = zip ts plant_scores\<rparr>"

section \<open>The view of a page\<close>

definition style_elem :: "string \<Rightarrow> bool" where
  "style_elem b \<longleftrightarrow> startswith (lstrip b) ''<style''"

fun md_body :: "st_elem \<Rightarrow> string list" where
  "md_body (MdElem b) = (if style_elem b then [] else [b])"
| "md_body _ = []"

fun cell_int :: "cell \<Rightarrow> int" where
  "cell_int (TimeCell t) = t"
| "cell_int (IntCell i) = i"

definition chart_points :: "chart \<Rightarrow> (datetime \<times> int) list list" where
  "chart_points ch = map (\<lambda>(_, ps). map (\<lambda>(x, y). (cell_int x, cell_int y)) ps) (chart_series ch)"

fun elem_charts :: "st_elem \<Rightarrow> (datetime \<times> int) list list" where
  "elem_charts (ChartElem ch) = chart_points ch"
| "elem_charts _ = []"

text \<open>
  The widgets of a page as an HTML reader \<open>rd\<close> sees its markup: \<open>html_lex\<close> reads the
  bodies as the script writes them, \<open>rendered_html\<close> reads what \<^verbatim>\<open>st.markdown\<close>
  shows of them as HTML.
\<close>

definition widget_view :: "(string \<Rightarrow> html_tok list) \<Rightarrow> page \<Rightarrow> view" where
  "widget_view rd p =
     (let bs = concat (map md_body (main_elems p)) in
      \<lparr>v_summary = concat (map (\<lambda>b. map (\<lambda>c. (sc_label c, sc_value c)) (summary_cards (rd b))) bs),
       v_sensors = concat (map (\<lambda>b. map (\<lambda>c. (sn_title c, sn_value c, sn_unit c, sn_badge c))
                                       (sensor_cards (rd b))) bs),
       v_charts = concat (map (\<lambda>(_, e). elem_charts e) (page_log p))\<rparr>)"

definition rendered_view :: "page \<Rightarrow> view" where
  "rendered_view = widget_view rendered_html"

section \<open>Lemmas\<close>

lemma startswith_unlines:
  "length p \<le> length l \<Longrightarrow> ls \<noteq> [] \<Longrightarrow> startswith (unlines (l # ls)) p = startswith l p"
  by (simp add: unlines_Cons startswith_def)

lemma style_elems:
  "style_elem style_md" "\<not> style_elem top_bar_md" "\<not> style_elem hero_md" "\<not> style_elem sensors_md"
  unfolding style_elem_def style_md_def top_bar_md_def hero_md_def sensors_md_def lstrip_unlines
  by (simp_all add: startswith_unlines lstrip_def)

lemma chart_points_score_frame:
  "length ts = length xs \<Longrightarrow> chart_points (line_chart (score_frame ts xs) h) = [zip ts xs]"
  by (simp add: chart_points_def line_chart_def score_frame_def zip_map_map comp_def case_prod_beta)

text \<open>
  The view of the finished page, for any reader: the cards of the top bar, the hero and
  the sensor body, and the two series.
\<close>

lemma dashboard_widget_view:
  assumes "time_points now = Inr ts"
  shows "widget_view rd (snd (dashboard now empty_page)) =
           \<lparr>v_summary = concat (map (\<lambda>b. map (\<lambda>c. (sc_label c, sc_value c)) (summary_cards (rd b)))
                                   [top_bar_md, hero_md, sensors_md]),
            v_sensors = concat (map (\<lambda>b. map (\<lambda>c. (sn_title c, sn_value c, sn_unit c, sn_badge c))
                                   (sensor_cards (rd b))) [top_bar_md, hero_md, sensors_md]),
            v_charts = [zip ts fish_scores, zip ts plant_scores]\<rparr>"
proof -
  have l: "length ts = 6" using assms by (rule length_time_points)
  then have c: "chart_points (line_chart (score_frame ts fish_scores) 220) = [zip ts fish_scores]"
    "chart_points (line_chart (score_frame ts plant_scores) 220) = [zip ts plant_scores]"
    by (simp_all add: chart_points_score_frame fish_scores_def plant_scores_def)
  show ?thesis
    unfolding dashboard_page_eq [OF assms]
    by (simp add: widget_view_def dashboard_calls_def empty_page_def main_elems_def style_elems c)
qed

lemma rendered_no_cards:
  "summary_cards (rendered_html top_bar_md) = []" "sensor_cards (rendered_html top_bar_md) = []"
  "summary_cards (rendered_html hero_md) = []" "sensor_cards (rendered_html hero_md) = []"
  "summary_cards (rendered_html sensors_md) = []" "sensor_cards (rendered_html sensors_md) = []"
  by (simp_all add: rendered_html_def top_bar_md_def hero_md_def sensors_md_def st_markdown_blocks_unlines
                    md_eval markup_eval)

section \<open>Properties\<close>

text \<open>
  C17: The page as \<^verbatim>\<open>st.markdown\<close> renders it does not refine the specification.
  Whenever line 262 builds its time stamps, the rendered page shows the two series the
  spec asks for, but no summary card and no sensor card as HTML, so its view differs
  from the spec's view of the reference snapshot.
\<close>

theorem rendered_view_diverges:
  assumes "time_points now = Inr ts"
  shows "rendered_view (snd (dashboard now empty_page)) =
           \<lparr>v_summary = [], v_sensors = [], v_charts = [zip ts fish_scores, zip ts plant_scores]\<rparr>
         \<and> rendered_view (snd (dashboard now empty_page)) \<noteq> spec_view (reference_snapshot ts)"
proof -
  have "rendered_view (snd (dashboard now empty_page)) =
          \<lparr>v_summary = [], v_sensors = [], v_charts = [zip ts fish_scores, zip ts plant_scores]\<rparr>"
    unfolding rendered_view_def dashboard_widget_view [OF assms] by (simp add: rendered_no_cards)
  moreover have "v_summary (spec_view (reference_snapshot ts)) \<noteq> []"
    by (simp add: spec_view_def)
  ultimately show ?thesis by (metis view.select_convs(1))
qed

end
