(* ===== verification/Buttons.thy ===== *)
theory Buttons
  imports View
begin

text \<open>
  The buttons of the page. The script writes its buttons as raw HTML inside
  \<^verbatim>\<open>st.markdown\<close> bodies: Preview Dark and Logout in the top bar (lines 283--286),
  Run Scan and Download Report in each panel header (lines 414--417 and 442--445). No
  \<^verbatim>\<open>st.button\<close> is called, so no button has a handler in the script; what the
  model shows is which buttons reach the page, and in which form.
\<close>

section \<open>Buttons\<close>

text \<open>The label of each \<^verbatim>\<open><button>\<close> element, the text right inside it, in document order.\<close>

fun button_labels :: "html_tok list \<Rightarrow> string list" where
  "button_labels [] = []"
| "button_labels (StartTag n as # ts) =
     (if n = ''button'' then (case ts of TextTok x # _ \<Rightarrow> x | _ \<Rightarrow> []) # button_labels ts
      else button_labels ts)"
| "button_labels (_ # ts) = button_labels ts"

text \<open>The buttons of a page's markup bodies as a reader \<open>rd\<close> sees them, in page order.\<close>

definition page_buttons :: "(string \<Rightarrow> html_tok list) \<Rightarrow> page \<Rightarrow> string list" where
  "page_buttons rd p = concat (map (\<lambda>(_, e). concat (map (\<lambda>b. button_labels (rd b)) (md_body e))) (page_log p))"

section \<open>Lemmas\<close>

lemma lex_chars_text:
  "CHR ''<'' \<notin> set s \<Longrightarrow> lex_chars (ts, InText acc) s = (ts, InText (rev s @ acc))"
  by (induction s arbitrary: acc) auto

lemma clock_no_lt: "CHR ''<'' \<notin> set (clock_string t)"
proof -
  have "CHR ''<'' \<notin> set decimal_digits \<union> set '': APM''" by (simp add: decimal_digits_def)
  with set_clock_string [of t] show ?thesis by blast
qed

text \<open>A formatted panel header, whatever its time field, renders its two buttons.\<close>

lemma panel_buttons:
  assumes "CHR ''<'' \<notin> set x" and "nl_free x"
  shows "button_labels (rendered_html (unlines (fish_panel_lines[15 := ''                Last checked: '' @ x])))
           = [''Run Scan'', ''Download Report'']"
    and "button_labels (rendered_html (unlines (plant_panel_lines[15 := ''                Last checked: '' @ x])))
           = [''Run Scan'', ''Download Report'']"
  using assms
  by (simp_all add: rendered_html_def fish_panel_lines_def plant_panel_lines_def st_markdown_blocks_unlines
                    md_eval markup_eval lex_chars_append lex_chars_text)

lemma panel_not_style:
  "\<not> style_elem (unlines (fish_panel_lines[15 := y]))"
  "\<not> style_elem (unlines (plant_panel_lines[15 := y]))"
  "\<not> style_elem panel_close_md"
  unfolding style_elem_def fish_panel_lines_def plant_panel_lines_def panel_close_md_def lstrip_unlines
  by (simp_all add: startswith_unlines lstrip_def)

lemma main_buttons:
  "button_labels (rendered_html top_bar_md) = [''Preview Dark'', ''Logout'']"
  "button_labels (rendered_html hero_md) = []" "button_labels (rendered_html sensors_md) = []"
  by (simp_all add: rendered_html_def top_bar_md_def hero_md_def sensors_md_def
                    st_markdown_blocks_unlines md_eval markup_eval)

lemma close_buttons: "button_labels (rendered_html panel_close_md) = []"
  by (simp add: rendered_html_def panel_close_md_def st_markdown_blocks_unlines [of "[''</div>'']", simplified]
                md_eval markup_eval)

lemma source_buttons:
  "button_labels (html_lex top_bar_md) = [''Preview Dark'', ''Logout'']"
  "button_labels (html_lex hero_md) = []" "button_labels (html_lex sensors_md) = []"
  "button_labels (html_lex panel_close_md) = []"
  by (simp_all add: top_bar_md_def hero_md_def sensors_md_def panel_close_md_def markup_eval)

lemma panel_source_buttons:
  assumes "CHR ''<'' \<notin> set x"
  shows "button_labels (html_lex (unlines (fish_panel_lines[15 := ''                Last checked: '' @ x])))
           = [''Run Scan'', ''Download Report'']"
    and "button_labels (html_lex (unlines (plant_panel_lines[15 := ''                Last checked: '' @ x])))
           = [''Run Scan'', ''Download Report'']"
  using assms
  by (simp_all add: fish_panel_lines_def plant_panel_lines_def markup_eval lex_chars_append lex_chars_text)

text \<open>The buttons of the finished page, for any reader: those of the five bodies that are no stylesheet.\<close>

lemma dashboard_page_buttons:
  assumes "time_points now = Inr ts"
  shows "page_buttons rd (snd (dashboard now empty_page)) =
           button_labels (rd top_bar_md) @ button_labels (rd hero_md) @ button_labels (rd sensors_md)
           @ button_labels (rd (unlines (fish_panel_lines[15 := ''                Last checked: '' @ clock_string now])))
           @ button_labels (rd panel_close_md)
           @ button_labels (rd (unlines (plant_panel_lines[15 := ''                Last checked: '' @ clock_string now])))
           @ button_labels (rd panel_close_md)"
  unfolding dashboard_page_eq [OF assms]
  by (simp add: page_buttons_def dashboard_calls_def empty_page_def fish_panel_md_def plant_panel_md_def
                fish_panel_format plant_panel_format panel_not_style style_elems)

lemma dashboard_buttons:
  assumes "time_points now = Inr ts"
  shows "page_buttons rendered_html (snd (dashboard now empty_page)) =
           [''Preview Dark'', ''Logout'', ''Run Scan'', ''Download Report'', ''Run Scan'', ''Download Report'']"
  unfolding dashboard_page_buttons [OF assms]
  by (simp add: panel_buttons [OF clock_no_lt nl_free_clock_string, simplified] main_buttons close_buttons)

section \<open>Properties\<close>

text \<open>
  C18: Whenever line 262 builds its time stamps, every button the script writes reaches
  the page as an HTML button, in page order: Preview Dark and Logout from the top bar,
  then Run Scan and Download Report from each panel header. Unlike the cards, no button
  falls into a code block: what the page shows is what the source declares.
\<close>

theorem buttons_rendered:
  assumes "time_points now = Inr ts"
  shows "page_buttons rendered_html (snd (dashboard now empty_page)) =
           [''Preview Dark'', ''Logout'', ''Run Scan'', ''Download Report'', ''Run Scan'', ''Download Report'']
         \<and> page_buttons html_lex (snd (dashboard now empty_page)) =
           page_buttons rendered_html (snd (dashboard now empty_page))"
proof -
  have "page_buttons html_lex (snd (dashboard now empty_page)) =
          [''Preview Dark'', ''Logout'', ''Run Scan'', ''Download Report'', ''Run Scan'', ''Download Report'']"
    unfolding dashboard_page_buttons [OF assms]
    by (simp add: panel_source_buttons [OF clock_no_lt, simplified] source_buttons)
  with dashboard_buttons [OF assms] show ?thesis by simp
qed


end
