(* ===== verification/Spec2Isabelle.thy ===== *)
theory Spec2Isabelle
  imports Buttons
begin

text \<open>
  \<^bold>\<open>A verification model of the Aquanexus preview dashboard.\<close>

  \<^verbatim>\<open>src/dashboard.py\<close> is a single Streamlit script. Run from top to bottom, it
  \<^enum> configures the page (lines 8--11);
  \<^enum> injects a stylesheet through \<^verbatim>\<open>st.markdown\<close> (lines 16--256);
  \<^enum> reads \<^verbatim>\<open>now = datetime.now()\<close> and builds six chart time stamps
    \<^verbatim>\<open>now - timedelta(hours=h)\<close>, \<^verbatim>\<open>h\<close> in \<^verbatim>\<open>[20, 16, 12, 8, 4, 0]\<close> (261--262);
  \<^enum> builds two pandas frames of static health scores indexed by those stamps (264--268);
  \<^enum> emits the top bar, the hero with three summary cards, and the sensor panel with
    five sensor cards as HTML bodies of \<^verbatim>\<open>st.markdown\<close> (273--395);
  \<^enum> splits the page in two columns; in each it emits a panel header formatted with
    \<^verbatim>\<open>now.strftime("%I:%M:%S %p")\<close>, draws \<^verbatim>\<open>st.line_chart(df, height=220)\<close>,
    and emits \<^verbatim>\<open>st.markdown("</div>")\<close> to close the panel (400--456).

  \<^bold>\<open>Theories.\<close>
  \<^descr>[\<open>Prelude\<close>] the error type \<open>py_error\<close> (\<^verbatim>\<open>OverflowError\<close>,
    \<^verbatim>\<open>ValueError\<close>, \<^verbatim>\<open>KeyError\<close>, \<^verbatim>\<open>IndexError\<close>) and results
    \<open>'a py_result = py_error + 'a\<close>; \<open>py_map\<close> (a list comprehension that stops at the
    first exception); Python's \<^verbatim>\<open>str.strip\<close>, \<^verbatim>\<open>startswith\<close>, \<^verbatim>\<open>lower\<close>
    and \<^verbatim>\<open>isspace\<close> on code points; texts as lists of lines (\<open>unlines\<close>,
    \<open>split_nl\<close>) with the lemmas that let every computation run line by line;
    two-digit decimal fields.
  \<^descr>[\<open>Clock\<close>] \<^verbatim>\<open>datetime\<close> and \<^verbatim>\<open>timedelta\<close> as integers of microseconds,
    with CPython's range checks (\<open>datetime_ok\<close>, \<open>timedelta_hours\<close>, \<open>dt_sub\<close>);
    the comprehension of line 262 (\<open>time_point\<close>, \<open>time_points\<close>); the
    \<^verbatim>\<open>strftime\<close> format \<^verbatim>\<open>%I:%M:%S %p\<close> (\<open>clock_string\<close>).
  \<^descr>[\<open>Frame\<close>] pandas frames as a record of index and columns (\<open>DataFrame\<close>,
    \<open>set_index\<close>), \<^verbatim>\<open>st.line_chart\<close> (\<open>line_chart\<close>), the score lists and the
    two frames and charts of lines 264--268, 427, 455.
  \<^descr>[\<open>Markdown\<close>] the library behaviour of \<^verbatim>\<open>st.markdown\<close>: Streamlit's
    \<^verbatim>\<open>clean_text\<close> (\<^verbatim>\<open>textwrap.dedent\<close>, then \<^verbatim>\<open>strip\<close>) and the CommonMark
    block structure (HTML blocks of start conditions 1, 2 and 6, indented code
    blocks, paragraphs) as the line-by-line state machine \<open>md_go\<close>.
  \<^descr>[\<open>Markup\<close>] the markup literals of the script, copied line for line
    (\<open>top_bar_md\<close>, \<open>hero_md\<close>, \<open>sensors_md\<close>, \<open>fish_panel_lines\<close>,
    \<open>plant_panel_lines\<close>, \<open>panel_close_md\<close>); \<^verbatim>\<open>str.format\<close> (\<open>py_format\<close>)
    and the two formatted panel headers; an HTML tokenizer (\<open>html_lex\<close>) and the
    readers of the cards the markup declares (\<open>summary_cards\<close>, \<open>sensor_cards\<close>)
    and of the elements it leaves open (\<open>open_elems\<close>).
  \<^descr>[\<open>Style\<close>] the stylesheet literal of lines 16--256 in eight rule groups
    (\<open>css_app_top_bar\<close> ... \<open>css_soft_btn\<close>, \<open>style_rules\<close>, \<open>style_md\<close>), and the
    selectors of its rules (\<open>css_selectors\<close>).
  \<^descr>[\<open>Page\<close>] the Streamlit side of the script: the page as a record of its
    configuration and its element log (\<open>page\<close>), containers (\<open>Main\<close>, the columns of
    \<^verbatim>\<open>st.columns\<close>), the calls as a datatype with a step function (\<open>exec_call\<close>),
    and their sequential execution (\<open>exec_calls\<close>). The whole script is \<open>dashboard\<close>, one bind of a state-and-exception
    monad (\<open>sc_bind\<close>) per statement of the source, so that an exception raised
    between two calls ends the run with the page as far as it got.
  \<^descr>[\<open>View\<close>] the contract of \<^verbatim>\<open>spec.md\<close>: \<open>snapshot\<close> (its \<^verbatim>\<open>SystemSnapshot\<close>),
    the view its renderer produces (\<open>spec_view\<close>), the reference data, and the
    abstraction \<open>widget_view\<close> of a page to that view for an HTML reader;
    \<open>rendered_view\<close> reads what \<^verbatim>\<open>st.markdown\<close> shows of the bodies as HTML.
    The reference snapshot takes the values section 8 of the spec fixes (12, Fresh,
    98%, pH 7.39) and, where the spec gives only names or a shape, the script's.
  \<^descr>[\<open>Buttons\<close>] the \<^verbatim>\<open><button>\<close> elements of the top bar (lines 283--286)
    and of the panel headers (414--417, 442--445) as the page shows them
    (\<open>button_labels\<close>, \<open>page_buttons\<close>).
  \<^descr>[\<open>Spec2Isabelle\<close>] this header, the property that spans the time, frame and
    markup components, and the witnesses.

  \<^bold>\<open>What is proved.\<close>
  \<^item> Rendering (Markup): after \<^verbatim>\<open>clean_text\<close>, the summary row of the hero and the
    sensor grid each follow a blank line at four spaces of indentation. CommonMark
    ends the HTML block at the blank line and reads them as indented code blocks,
    so none of the eight cards reaches the page as HTML; they are shown as
    literal text. The source markup does declare all of them, with the values of
    the spec. The top bar and the panel headers have no blank line and render as
    HTML. Each panel header leaves its \<^verbatim>\<open><div class="panel">\<close> open in its
    own call, and the closing \<^verbatim>\<open>st.markdown("</div>")\<close> closes nothing in its
    fragment, so the chart is not inside the panel.
  \<^item> Formatting (Markup): for any keyword arguments, \<^verbatim>\<open>str.format\<close> on either
    panel template raises \<^verbatim>\<open>KeyError('time')\<close> when no \<^verbatim>\<open>time\<close> is given,
    and otherwise changes only the "Last checked" line: the templates have no other
    field and no stray brace.
  \<^item> Time (Clock): the six time stamps are produced exactly when \<^verbatim>\<open>now\<close> is at
    least 20 hours after \<^verbatim>\<open>datetime.min\<close>; otherwise line 262 raises
    \<^verbatim>\<open>OverflowError\<close>. They are strictly increasing, 4 hours apart, and end at
    \<^verbatim>\<open>now\<close>. The clock string determines the second of the day.
  \<^item> Data (Frame): with the time stamps of line 262 the fish frame and chart are
    built without error, one "Health" series pairing each stamp with its score.
  \<^item> Stylesheet (Style): the \<^verbatim>\<open><style>\<close> body opens an HTML block of start
    condition 1, which only its closing tag ends; so, unlike the hero and sensor
    bodies, it reaches the page whole, blank lines included. Every class the markup
    uses has a rule, and the only other rule is \<^verbatim>\<open>.stApp\<close>.
  \<^item> The run (Page): when line 262 succeeds the script makes exactly the twelve calls
    of \<open>dashboard_calls\<close> and ends; when it raises, the page holds only the
    configuration and the stylesheet.
  \<^item> Refinement (View): the page the script leaves, as \<^verbatim>\<open>st.markdown\<close> renders
    it, does not refine the spec's view: it shows both series but no summary card and
    no sensor card.
  \<^item> Buttons: the six buttons of the source all reach the page as HTML, in page
    order, and what is rendered is what the source declares.
  \<^item> Across components (this theory): both charts share the time axis of line 262,
    whose last point is the instant the "Last checked" lines display.

  \<^bold>\<open>Bounds.\<close> No fuel is used. \<open>md_go\<close> and \<open>py_format\<close> are total
  functions with measures (lines left plus state rank; characters left);
  \<open>show_nat\<close> recurses on \<open>n div 10\<close>. The
  integer model of \<^verbatim>\<open>datetime\<close> is exact over CPython's whole range, years 1
  to 9999 at microsecond resolution.

  \<^bold>\<open>Not modelled.\<close>
  \<^item> The visual effect of the stylesheet and of the layout options: CSS rendering and
    column widths are browser behaviour.
  \<^item> Clicking a button: the buttons are static HTML with no handler and the script
    calls no \<^verbatim>\<open>st.button\<close>, so a click sends nothing to the script and changes
    no state; there is no code of the source to model.
  \<^item> Streamlit's rerun loop, and the browser's DOM construction beyond the element
    stack of one fragment.
  \<^item> The reading of \<^verbatim>\<open>datetime.now()\<close> itself: \<open>now\<close> is a parameter ranging
    over every representable instant, wider than a real clock returns: the
    overflow of line 262 (within 20 hours of 0001-01-01) is reachable only with a
    clock set to that date.
  \<^item> Markdown inline syntax and the block kinds no body of the script reaches
    (headings, lists, quotes, fences, HTML start condition 7).
\<close>

text \<open>
  C4: Whenever \<^verbatim>\<open>now\<close> is a valid instant at least 20 hours after
  \<^verbatim>\<open>datetime.min\<close>, both charts are drawn and share the time axis of line 262. Their
  x values are the six time stamps in strictly increasing order. The last x value
  is \<^verbatim>\<open>now\<close>, the instant whose clock string the "Last checked" lines of both
  panel headers display.
\<close>

theorem page_time_axis:
  assumes "datetime_ok now" and "20 * us_per_hour \<le> now"
  shows "\<exists>ts fc pc fs ps.
           time_points now = Inr ts \<and> fish_chart ts = Inr fc \<and> plant_chart ts = Inr pc
           \<and> chart_series fc = [(''Health'', zip (map TimeCell ts) (map IntCell fish_scores))]
           \<and> chart_series pc = [(''Health'', zip (map TimeCell ts) (map IntCell plant_scores))]
           \<and> sorted_wrt (<) ts \<and> last ts = now
           \<and> fish_panel_md now = Inr fs \<and> plant_panel_md now = Inr ps
           \<and> fs = unlines (fish_panel_lines[15 := ''                Last checked: '' @ clock_string (last ts)])
           \<and> ps = unlines (plant_panel_lines[15 := ''                Last checked: '' @ clock_string (last ts)])"
proof -
  let ?ts = "map (\<lambda>h. now - h * us_per_hour) hour_offsets"
  have h: "\<bar>h\<bar> \<le> 24 \<and> datetime_ok (now - h * us_per_hour)" if "h \<in> set hour_offsets" for h
    using that assms by (auto simp: hour_offsets_def datetime_ok_def)
  then have "time_points now = Inr ?ts"
    unfolding time_points_def
    by (intro py_map_all_Inr) (simp add: list_all_iff time_point_ok)
  moreover have len: "length ?ts = length fish_scores" "length ?ts = length plant_scores"
    by (simp_all add: hour_offsets_def fish_scores_def plant_scores_def)
  moreover have "sorted_wrt (<) ?ts \<and> last ?ts = now"
    by (simp add: hour_offsets_def)
  ultimately show ?thesis
    by (simp add: fish_chart_def plant_chart_def fish_df_def plant_df_def health_frame_ok
                  line_chart_def fish_panel_md_def plant_panel_md_def fish_panel_format
                  plant_panel_format)
qed

section \<open>Witnesses\<close>

text \<open>Each property with a hypothesis, at an instance where the hypothesis holds.\<close>

lemma time_points_at_20h:
  "time_points (20 * us_per_hour) =
     Inr [0, 4 * us_per_hour, 8 * us_per_hour, 12 * us_per_hour, 16 * us_per_hour, 20 * us_per_hour]"
  by (simp add: time_points_def hour_offsets_def time_point_def timedelta_hours_def dt_sub_def
                datetime_ok_def max_ordinal_def Let_def)

theorem page_time_axis_witness:
  "datetime_ok (100 * us_per_hour) \<and> 20 * us_per_hour \<le> 100 * us_per_hour
   \<and> (\<exists>ts fc pc fs ps.
       time_points (100 * us_per_hour) = Inr ts \<and> fish_chart ts = Inr fc \<and> plant_chart ts = Inr pc
       \<and> chart_series fc = [(''Health'', zip (map TimeCell ts) (map IntCell fish_scores))]
       \<and> chart_series pc = [(''Health'', zip (map TimeCell ts) (map IntCell plant_scores))]
       \<and> sorted_wrt (<) ts \<and> last ts = 100 * us_per_hour
       \<and> fish_panel_md (100 * us_per_hour) = Inr fs \<and> plant_panel_md (100 * us_per_hour) = Inr ps
       \<and> fs = unlines (fish_panel_lines[15 := ''                Last checked: '' @ clock_string (last ts)])
       \<and> ps = unlines (plant_panel_lines[15 := ''                Last checked: '' @ clock_string (last ts)]))"
proof -
  have "datetime_ok (100 * us_per_hour)" by (simp add: datetime_ok_def max_ordinal_def)
  then show ?thesis using page_time_axis [of "100 * us_per_hour"] by simp
qed

theorem time_points_ok_witness:
  "datetime_ok (100 * us_per_hour) \<and> 20 * us_per_hour \<le> 100 * us_per_hour
   \<and> time_points (100 * us_per_hour) =
       Inr [80 * us_per_hour, 84 * us_per_hour, 88 * us_per_hour, 92 * us_per_hour,
            96 * us_per_hour, 100 * us_per_hour]"
proof -
  have "datetime_ok (100 * us_per_hour)" by (simp add: datetime_ok_def max_ordinal_def)
  then show ?thesis using time_points_ok [of "100 * us_per_hour"] by simp
qed

theorem time_points_overflow_witness:
  "datetime_ok 0 \<and> 0 < 20 * us_per_hour
   \<and> time_points 0 = Inl (OverflowError ''date value out of range'')"
proof -
  have "datetime_ok 0" by (simp add: datetime_ok_def max_ordinal_def)
  then show ?thesis using time_points_overflow [of 0] by simp
qed

theorem time_points_spacing_witness:
  "time_points (20 * us_per_hour) =
     Inr [0, 4 * us_per_hour, 8 * us_per_hour, 12 * us_per_hour, 16 * us_per_hour, 20 * us_per_hour]
   \<and> length [0, 4 * us_per_hour, 8 * us_per_hour, 12 * us_per_hour, 16 * us_per_hour, 20 * us_per_hour] = 6
   \<and> last [0, 4 * us_per_hour, 8 * us_per_hour, 12 * us_per_hour, 16 * us_per_hour, 20 * us_per_hour]
       = 20 * us_per_hour"
  using time_points_spacing [OF time_points_at_20h] time_points_at_20h by simp

theorem fish_chart_ok_witness:
  "time_points (20 * us_per_hour) =
     Inr [0, 4 * us_per_hour, 8 * us_per_hour, 12 * us_per_hour, 16 * us_per_hour, 20 * us_per_hour]
   \<and> fish_chart [0, 4 * us_per_hour, 8 * us_per_hour, 12 * us_per_hour, 16 * us_per_hour, 20 * us_per_hour] =
       Inr \<lparr>chart_series = [(''Health'',
              zip (map TimeCell [0, 4 * us_per_hour, 8 * us_per_hour, 12 * us_per_hour,
                                 16 * us_per_hour, 20 * us_per_hour]) (map IntCell fish_scores))],
            chart_height = 220\<rparr>"
  using fish_chart_ok [OF time_points_at_20h] time_points_at_20h by simp

lemma time_points_at_0: "time_points 0 = Inl (OverflowError ''date value out of range'')"
  by (simp add: time_points_def hour_offsets_def time_point_def timedelta_hours_def dt_sub_def
                datetime_ok_def Let_def)

theorem dashboard_calls_run_witness:
  "time_points (20 * us_per_hour) =
     Inr [0, 4 * us_per_hour, 8 * us_per_hour, 12 * us_per_hour, 16 * us_per_hour, 20 * us_per_hour]
   \<and> fst (dashboard (20 * us_per_hour) empty_page) = Inr ()
   \<and> main_elems (snd (dashboard (20 * us_per_hour) empty_page)) =
       [MdElem style_md, MdElem top_bar_md, MdElem hero_md, MdElem sensors_md, ColumnsElem 2]"
  using dashboard_calls_run [OF time_points_at_20h] time_points_at_20h by simp

theorem dashboard_stops_at_time_points_witness:
  "time_points 0 = Inl (OverflowError ''date value out of range'')
   \<and> dashboard 0 empty_page =
       (Inl (OverflowError ''date value out of range''),
        \<lparr>page_config = Some (page_title, ''wide''), page_log = [(Main, MdElem style_md)]\<rparr>)"
  using dashboard_stops_at_time_points [OF time_points_at_0] time_points_at_0 by simp

theorem rendered_view_diverges_witness:
  "time_points (20 * us_per_hour) = Inr [0, 4 * us_per_hour, 8 * us_per_hour, 12 * us_per_hour, 16 * us_per_hour, 20 * us_per_hour]
   \<and> rendered_view (snd (dashboard (20 * us_per_hour) empty_page)) =
       \<lparr>v_summary = [], v_sensors = [],
        v_charts = [zip [0, 4 * us_per_hour, 8 * us_per_hour, 12 * us_per_hour, 16 * us_per_hour, 20 * us_per_hour] fish_scores,
                    zip [0, 4 * us_per_hour, 8 * us_per_hour, 12 * us_per_hour, 16 * us_per_hour, 20 * us_per_hour] plant_scores]\<rparr>
   \<and> rendered_view (snd (dashboard (20 * us_per_hour) empty_page)) \<noteq>
       spec_view (reference_snapshot [0, 4 * us_per_hour, 8 * us_per_hour, 12 * us_per_hour, 16 * us_per_hour, 20 * us_per_hour])"
  using rendered_view_diverges [OF time_points_at_20h] time_points_at_20h by blast

theorem buttons_rendered_witness:
  "time_points (20 * us_per_hour) = Inr [0, 4 * us_per_hour, 8 * us_per_hour, 12 * us_per_hour, 16 * us_per_hour, 20 * us_per_hour]
   \<and> page_buttons rendered_html (snd (dashboard (20 * us_per_hour) empty_page)) =
       [''Preview Dark'', ''Logout'', ''Run Scan'', ''Download Report'', ''Run Scan'', ''Download Report'']"
  using buttons_rendered [OF time_points_at_20h] time_points_at_20h by simp


end
